theory Spec2Isabelle
  imports Complex_Main "HOL-Library.Word"
begin

section \<open>The VAE image processor of diffusers: data model\<close>

text \<open>
  The development follows \<^verbatim>\<open>src/diffusers/image_processor.py\<close>: the class
  \<^verbatim>\<open>VaeImageProcessor\<close> and, of \<^verbatim>\<open>VaeImageProcessorLDM3D\<close>, the
  methods \<^verbatim>\<open>numpy_to_pil\<close>, \<^verbatim>\<open>rgblike_to_depthmap\<close>, \<^verbatim>\<open>numpy_to_depth\<close>
  and \<^verbatim>\<open>postprocess\<close>.

  Every \<^verbatim>\<open>raise\<close>, and every exception of numpy, torch and PIL that the modelled
  statements can run into, is a value of the type \<open>error\<close>.
\<close>

datatype error =
    TypeError            \<comment> \<open>raised while the message of \<^verbatim>\<open>raise ValueError("Input is in incorrect format ...")\<close> is built\<close>
  | NotATensor           \<comment> \<open>the \<^verbatim>\<open>raise ValueError("Input for postprocessing ...")\<close>\<close>
  | SizeNotDivisible     \<comment> \<open>the \<^verbatim>\<open>raise ValueError("Currently we only support resizing for PIL image ...")\<close>\<close>
  | NotSupported         \<comment> \<open>\<^verbatim>\<open>raise Exception("Not supported")\<close> and \<^verbatim>\<open>raise Exception("This type ... is not supported")\<close>\<close>
  | IndexError           \<comment> \<open>an index out of range: \<^verbatim>\<open>image[0]\<close> of an empty list, a missing axis or channel\<close>
  | ZeroDivisionError    \<comment> \<open>\<^verbatim>\<open>x % 0\<close>\<close>
  | KeyError             \<comment> \<open>a resample name that \<^verbatim>\<open>PIL_INTERPOLATION\<close> does not have\<close>
  | ShapeError           \<comment> \<open>numpy and torch: shapes that do not stack, axes that do not match, a shape that does not unpack\<close>
  | EmptyReduction       \<comment> \<open>\<^verbatim>\<open>min()\<close> of a tensor with no element\<close>
  | ImageLibError        \<comment> \<open>an exception of the image library\<close>

datatype warning =
    RangeDeprecated             \<comment> \<open>the \<^verbatim>\<open>FutureWarning\<close> of preprocess for input with a negative minimum\<close>
  | OutputTypeDeprecated string \<comment> \<open>the message of \<^verbatim>\<open>deprecate("Unsupported output_type", ...)\<close>\<close>

text \<open>
  The configuration registered by \<^verbatim>\<open>__init__\<close>. Python integers are unbounded.
\<close>

record config =
  do_resize :: bool
  vae_scale_factor :: int
  resample :: string
  do_normalize :: bool
  do_convert_rgb :: bool

definition default_config :: config where
  "default_config = \<lparr>do_resize = True, vae_scale_factor = 8, resample = ''lanczos'',
     do_normalize = True, do_convert_rgb = False\<rparr>"

subsection \<open>Arrays and tensors\<close>

text \<open>
  A numpy array and a torch tensor are a shape and the elements in row-major order.
  The element type is a parameter: \<open>real\<close> for the floating-point arrays, \<open>8 word\<close> for
  \<^verbatim>\<open>uint8\<close>, \<open>16 word\<close> for \<^verbatim>\<open>uint16\<close>.

  A floating-point array also has its dtype, which decides how its arithmetic rounds:
  \<^verbatim>\<open>float32\<close> (what \<^verbatim>\<open>pil_to_numpy\<close> and \<^verbatim>\<open>torch.FloatTensor\<close> give) or
  \<^verbatim>\<open>float64\<close> (the default of numpy). Its elements are the real numbers that the
  floating-point values denote. Arrays of integers and of half precision are not
  modelled as inputs of the processor.

  The functions on the layout of an array are written for every extension of the
  record, so that they keep the dtype of a floating-point array.
\<close>

record 'a ndarray =
  shape :: "nat list"
  data :: "'a list"

datatype dtype = Float32 | Float64

record farray = "real ndarray" +
  dtype :: dtype

definition ndim :: "('a, 'm) ndarray_scheme \<Rightarrow> nat" where
  "ndim a = length (shape a)"

definition numel :: "nat list \<Rightarrow> nat" where
  "numel sh = prod_list sh"

definition wf_array :: "('a, 'm) ndarray_scheme \<Rightarrow> bool" where
  "wf_array a = (length (data a) = numel (shape a))"

text \<open>An element-wise conversion to another element type gives a plain array.\<close>

definition map_array :: "('a \<Rightarrow> 'b) \<Rightarrow> ('a, 'm) ndarray_scheme \<Rightarrow> 'b ndarray" where
  "map_array f a = \<lparr>shape = shape a, data = map f (data a)\<rparr>"

text \<open>
  \<^verbatim>\<open>np.stack(arrays, axis=0)\<close> and \<^verbatim>\<open>torch.stack(tensors, axis=0)\<close>: all shapes are
  equal, and the batch is a new leading axis.
\<close>

definition stack_axis0 :: "('a, 'm) ndarray_scheme list \<Rightarrow> error + ('a, 'm) ndarray_scheme" where
  "stack_axis0 arrays =
     (case arrays of
        [] \<Rightarrow> Inl ShapeError
      | a # _ \<Rightarrow>
          if list_all (\<lambda>b. shape b = shape a) arrays
          then Inr (a\<lparr>shape := length arrays # shape a, data := concat (map data arrays)\<rparr>)
          else Inl ShapeError)"

text \<open>
  \<^verbatim>\<open>np.concatenate(arrays, axis=0)\<close>: every array has the leading axis and the same
  other axes, and the leading axes add up.
\<close>

definition concatenate_axis0 :: "('a, 'm) ndarray_scheme list \<Rightarrow> error + ('a, 'm) ndarray_scheme" where
  "concatenate_axis0 arrays =
     (case arrays of
        [] \<Rightarrow> Inl ShapeError
      | a # _ \<Rightarrow>
          (case shape a of
             [] \<Rightarrow> Inl ShapeError
           | _ # rest \<Rightarrow>
               if list_all (\<lambda>b. shape b \<noteq> [] \<and> tl (shape b) = rest) arrays
               then Inr (a\<lparr>shape := sum_list (map (\<lambda>b. hd (shape b)) arrays) # rest,
                            data := concat (map data arrays)\<rparr>)
               else Inl ShapeError))"

text \<open>
  \<^verbatim>\<open>torch.cat(tensors, axis=0)\<close> is the same, except that it skips the tensors of shape
  \<^verbatim>\<open>(0,)\<close>.
\<close>

definition torch_cat :: "('a, 'm) ndarray_scheme list \<Rightarrow> error + ('a, 'm) ndarray_scheme" where
  "torch_cat tensors =
     (case filter (\<lambda>t. shape t \<noteq> [0]) tensors of
        [] \<Rightarrow> (case tensors of [] \<Rightarrow> Inl ShapeError | t # _ \<Rightarrow> Inr (t\<lparr>shape := [0], data := []\<rparr>))
      | kept \<Rightarrow> concatenate_axis0 kept)"

text \<open>
  Stacking and concatenating arrays of different dtypes gives the wider dtype; a
  \<^verbatim>\<open>float32\<close> value is a \<^verbatim>\<open>float64\<close> value, so the elements stay as they are.
\<close>

definition result_type :: "dtype list \<Rightarrow> dtype" where
  "result_type ds = (if Float64 \<in> set ds then Float64 else Float32)"

definition promoted :: "farray list \<Rightarrow> farray \<Rightarrow> farray" where
  "promoted arrays a = a\<lparr>dtype := result_type (map dtype arrays)\<rparr>"

text \<open>
  \<^verbatim>\<open>a[i]\<close> and the iteration \<^verbatim>\<open>for image in images\<close>: the slices along the leading
  axis.
\<close>

definition item :: "('a, 'm) ndarray_scheme \<Rightarrow> nat \<Rightarrow> ('a, 'm) ndarray_scheme" where
  "item a i = a\<lparr>shape := tl (shape a),
                data := take (numel (tl (shape a))) (drop (i * numel (tl (shape a))) (data a))\<rparr>"

definition items :: "('a, 'm) ndarray_scheme \<Rightarrow> error + ('a, 'm) ndarray_scheme list" where
  "items a = (case shape a of [] \<Rightarrow> Inl IndexError
              | n # _ \<Rightarrow> Inr (map (item a) [0..<n]))"

text \<open>
  The two changes of layout. \<^verbatim>\<open>transpose(0, 3, 1, 2)\<close> takes \<open>(N,H,W,C)\<close> to
  \<open>(N,C,H,W)\<close>, \<^verbatim>\<open>permute(0, 2, 3, 1)\<close> takes it back; both need four axes.
\<close>

definition transpose_0312 :: "('a, 'm) ndarray_scheme \<Rightarrow> error + ('a, 'm) ndarray_scheme" where
  "transpose_0312 a =
     (case shape a of
        [n, h, w, c] \<Rightarrow>
          Inr (a\<lparr>shape := [n, c, h, w],
                 data := [data a ! (((i * h + y) * w + x) * c + k).
                            i \<leftarrow> [0..<n], k \<leftarrow> [0..<c], y \<leftarrow> [0..<h], x \<leftarrow> [0..<w]]\<rparr>)
      | _ \<Rightarrow> Inl ShapeError)"

definition permute_0231 :: "('a, 'm) ndarray_scheme \<Rightarrow> error + ('a, 'm) ndarray_scheme" where
  "permute_0231 a =
     (case shape a of
        [n, c, h, w] \<Rightarrow>
          Inr (a\<lparr>shape := [n, h, w, c],
                 data := [data a ! (((i * c + k) * h + y) * w + x).
                            i \<leftarrow> [0..<n], y \<leftarrow> [0..<h], x \<leftarrow> [0..<w], k \<leftarrow> [0..<c]]\<rparr>)
      | _ \<Rightarrow> Inl ShapeError)"

text \<open>
  The slice \<^verbatim>\<open>a[..., start:stop, ...]\<close> and the index \<^verbatim>\<open>a[..., k, ...]\<close> on the axis
  \<open>ax\<close>, for the non-negative bounds that the processor uses. A slice never fails on
  an axis that exists (its bounds are cut to the axis); an index out of the axis does.
\<close>

definition slice_axis ::
  "nat \<Rightarrow> nat \<Rightarrow> nat option \<Rightarrow> ('a, 'm) ndarray_scheme \<Rightarrow> error + ('a, 'm) ndarray_scheme" where
  "slice_axis ax start stop a =
     (if ax < ndim a then
        let outer = numel (take ax (shape a));
            c = shape a ! ax;
            blk = numel (drop (Suc ax) (shape a));
            lo = min start c;
            hi = max lo (case stop of None \<Rightarrow> c | Some s \<Rightarrow> min s c)
        in Inr (a\<lparr>shape := take ax (shape a) @ (hi - lo) # drop (Suc ax) (shape a),
                  data := [data a ! ((out * c + k) * blk + b).
                             out \<leftarrow> [0..<outer], k \<leftarrow> [lo..<hi], b \<leftarrow> [0..<blk]]\<rparr>)
      else Inl IndexError)"

definition index_axis :: "nat \<Rightarrow> nat \<Rightarrow> ('a, 'm) ndarray_scheme \<Rightarrow> error + ('a, 'm) ndarray_scheme" where
  "index_axis ax k a =
     (if ax < ndim a \<and> k < shape a ! ax then
        let outer = numel (take ax (shape a));
            c = shape a ! ax;
            blk = numel (drop (Suc ax) (shape a))
        in Inr (a\<lparr>shape := take ax (shape a) @ drop (Suc ax) (shape a),
                  data := [data a ! ((out * c + k) * blk + b).
                             out \<leftarrow> [0..<outer], b \<leftarrow> [0..<blk]]\<rparr>)
      else Inl IndexError)"

text \<open>\<^verbatim>\<open>squeeze()\<close> drops every axis of length 1.\<close>

definition squeeze :: "('a, 'm) ndarray_scheme \<Rightarrow> ('a, 'm) ndarray_scheme" where
  "squeeze a = a\<lparr>shape := filter (\<lambda>d. d \<noteq> 1) (shape a)\<rparr>"

text \<open>A list comprehension whose body can raise stops at the first exception.\<close>

fun sequence_err :: "(error + 'a) list \<Rightarrow> error + 'a list" where
  "sequence_err [] = Inr []"
| "sequence_err (Inl e # _) = Inl e"
| "sequence_err (Inr v # rs) = (case sequence_err rs of Inl e \<Rightarrow> Inl e | Inr vs \<Rightarrow> Inr (v # vs))"

subsection \<open>Floating-point arithmetic\<close>

text \<open>
  A finite floating-point value is the real number it denotes, and every arithmetic
  operation returns the exact result rounded to the nearest value of the format, ties
  to the even significand (IEEE 754 binary32: 24 significant bits, least exponent -126;
  binary64: 53 bits, least exponent -1022; both with gradual underflow). Overflow to
  infinity and NaN are not modelled.

  \<open>rint\<close> rounds to the nearest integer, ties to even; it is also numpy's
  \<^verbatim>\<open>round()\<close>. \<open>fl_exponent d x\<close> is the exponent of the last significant bit of the
  values of the format \<open>d\<close> around \<open>x\<close>, and \<open>fl d x\<close> rounds \<open>x\<close> to a multiple of that
  power of two. Concrete values are computed with the lemmas \<open>fl_representable\<close> and
  \<open>fl_eval\<close> below.
\<close>

fun precision :: "dtype \<Rightarrow> nat" where
  "precision Float32 = 24"
| "precision Float64 = 53"

fun emin :: "dtype \<Rightarrow> int" where
  "emin Float32 = - 126"
| "emin Float64 = - 1022"

definition rint :: "real \<Rightarrow> int" where
  "rint y = (let f = \<lfloor>y\<rfloor>; r = y - of_int f
             in if r < 1 / 2 then f else if 1 / 2 < r then f + 1
                else if even f then f else f + 1)"

definition fl_exponent :: "dtype \<Rightarrow> real \<Rightarrow> int" where
  "fl_exponent d x = max \<lfloor>log 2 \<bar>x\<bar>\<rfloor> (emin d) - (int (precision d) - 1)"

definition fl :: "dtype \<Rightarrow> real \<Rightarrow> real" where
  "fl d x = (if x = 0 then 0
             else of_int (rint (x / 2 powr of_int (fl_exponent d x)))
                  * 2 powr of_int (fl_exponent d x))"

subsection \<open>Value ranges\<close>

text \<open>
  \<^verbatim>\<open>normalize\<close>: \<^verbatim>\<open>2.0 * images - 1.0\<close>, and \<^verbatim>\<open>denormalize\<close>:
  \<^verbatim>\<open>(images / 2 + 0.5).clamp(0, 1)\<close>, element by element, in the dtype of the tensor
  (a Python number does not change the dtype of a floating-point tensor).
  \<^verbatim>\<open>clamp(0, 1)\<close> is \<open>min (max x 0) 1\<close>.
\<close>

definition normalize_elem :: "dtype \<Rightarrow> real \<Rightarrow> real" where
  "normalize_elem d x = fl d (fl d (2 * x) - 1)"

definition clamp :: "real \<Rightarrow> real \<Rightarrow> real \<Rightarrow> real" where
  "clamp lo hi x = min (max x lo) hi"

definition denormalize_elem :: "dtype \<Rightarrow> real \<Rightarrow> real" where
  "denormalize_elem d x = clamp 0 1 (fl d (fl d (x / 2) + 1 / 2))"

definition normalize_images :: "farray \<Rightarrow> farray" where
  "normalize_images images = images\<lparr>data := map (normalize_elem (dtype images)) (data images)\<rparr>"

definition denormalize :: "farray \<Rightarrow> farray" where
  "denormalize images = images\<lparr>data := map (denormalize_elem (dtype images)) (data images)\<rparr>"

subsection \<open>The image library\<close>

text \<open>
  PIL is an external collaborator. An image is its size, its number of bands and its
  pixel values, row by row and band-last; \<^verbatim>\<open>np.array(image)\<close> is the array
  \<open>(H, W)\<close> of a single-band image and \<open>(H, W, bands)\<close> otherwise. What PIL
  computes (\<^verbatim>\<open>convert\<close>, \<^verbatim>\<open>resize\<close>, \<^verbatim>\<open>Image.fromarray\<close>) and the table
  \<^verbatim>\<open>PIL_INTERPOLATION\<close> of \<^verbatim>\<open>.utils\<close> are parameters of the model.
\<close>

record pil_image =
  im_width :: nat
  im_height :: nat
  im_bands :: nat
  im_pixels :: "nat list"

type_synonym resample_filter = nat

record pil_lib =
  pil_convert :: "string \<Rightarrow> pil_image \<Rightarrow> pil_image"
  pil_resize :: "pil_image \<Rightarrow> int \<times> int \<Rightarrow> resample_filter \<Rightarrow> error + pil_image"
  pil_fromarray :: "nat ndarray \<Rightarrow> string option \<Rightarrow> error + pil_image"
  PIL_INTERPOLATION :: "string \<Rightarrow> resample_filter option"

definition np_array :: "pil_image \<Rightarrow> nat ndarray" where
  "np_array img =
     \<lparr>shape = (if im_bands img = 1 then [im_height img, im_width img]
               else [im_height img, im_width img, im_bands img]),
      data = im_pixels img\<rparr>"

text \<open>An argument that is one object or a list of objects.\<close>

datatype 'a one_or_list = One 'a | Many "'a list"

definition as_list :: "'a one_or_list \<Rightarrow> 'a list" where
  "as_list x = (case x of One a \<Rightarrow> [a] | Many xs \<Rightarrow> xs)"

subsection \<open>Format conversions of \<^verbatim>\<open>VaeImageProcessor\<close>\<close>

text \<open>
  \<^verbatim>\<open>astype("uint8")\<close> of a float is the conversion of C: the fraction is cut off, and
  a value that does not fit is not clamped. numpy leaves that case to the platform; on
  x86-64 the integer is reduced modulo 256, which is \<open>word_of_int\<close>.
\<close>

definition np_round :: "real \<Rightarrow> real" where
  "np_round x = of_int (rint x)"

definition astype_uint8 :: "real \<Rightarrow> 8 word" where
  "astype_uint8 x = word_of_int (if 0 \<le> x then \<lfloor>x\<rfloor> else \<lceil>x\<rceil>)"

text \<open>\<^verbatim>\<open>(images * 255).round().astype("uint8")\<close>, on one element of an array of dtype \<open>d\<close>.\<close>

definition to_uint8 :: "dtype \<Rightarrow> real \<Rightarrow> 8 word" where
  "to_uint8 d x = astype_uint8 (np_round (fl d (x * 255)))"

definition numpy_to_pil :: "pil_lib \<Rightarrow> farray \<Rightarrow> error + pil_image list" where
  "numpy_to_pil lib images =
     (let images = (if ndim images = 3 then images\<lparr>shape := 1 # shape images\<rparr> else images);
          images = map_array (to_uint8 (dtype images)) images
      in case items images of
           Inl e \<Rightarrow> Inl e
         | Inr ims \<Rightarrow>
             if last (shape images) = 1
             then sequence_err (map (\<lambda>img. pil_fromarray lib (map_array unat (squeeze img)) (Some ''L'')) ims)
             else sequence_err (map (\<lambda>img. pil_fromarray lib (map_array unat img) None) ims))"

text \<open>
  \<^verbatim>\<open>np.array(image).astype(np.float32) / 255.0\<close>: the cast rounds the pixel to
  \<^verbatim>\<open>float32\<close>, and the division is one of \<^verbatim>\<open>float32\<close>.
\<close>

definition astype_float32 :: "nat ndarray \<Rightarrow> farray" where
  "astype_float32 a = \<lparr>shape = shape a, data = map (\<lambda>v. fl Float32 (real v)) (data a), dtype = Float32\<rparr>"

definition pil_to_numpy :: "pil_image one_or_list \<Rightarrow> error + farray" where
  "pil_to_numpy images =
     stack_axis0 (map (\<lambda>img. let a = astype_float32 (np_array img)
                            in a\<lparr>data := map (\<lambda>v. fl (dtype a) (v / 255)) (data a)\<rparr>)
                      (as_list images))"

definition numpy_to_pt :: "('a, 'm) ndarray_scheme \<Rightarrow> error + ('a, 'm) ndarray_scheme" where
  "numpy_to_pt images =
     transpose_0312 (if ndim images = 3 then images\<lparr>shape := shape images @ [1]\<rparr> else images)"

text \<open>
  \<^verbatim>\<open>images.cpu().permute(0, 2, 3, 1).float().numpy()\<close>: \<^verbatim>\<open>float()\<close> casts to
  \<^verbatim>\<open>float32\<close>, which rounds the elements of a \<^verbatim>\<open>float64\<close> tensor.
\<close>

definition pt_to_numpy :: "farray \<Rightarrow> error + farray" where
  "pt_to_numpy images =
     (case permute_0231 images of
        Inl e \<Rightarrow> Inl e
      | Inr a \<Rightarrow> Inr (a\<lparr>data := map (fl Float32) (data a), dtype := Float32\<rparr>))"

definition convert_to_rgb :: "pil_lib \<Rightarrow> pil_image \<Rightarrow> pil_image" where
  "convert_to_rgb lib img = pil_convert lib ''RGB'' img"

subsection \<open>\<^verbatim>\<open>resize\<close>\<close>

text \<open>
  \<open>resize_dims\<close> is the first part of \<^verbatim>\<open>resize\<close>: the defaults of \<^verbatim>\<open>height\<close> and
  \<^verbatim>\<open>width\<close> and the generator \<^verbatim>\<open>x - x % self.config.vae_scale_factor\<close>, which gives
  the pair \<open>(width, height)\<close>. Python's \<^verbatim>\<open>%\<close> is \<open>mod\<close> on \<open>int\<close> and raises on 0.
\<close>

definition resize_dims :: "config \<Rightarrow> pil_image \<Rightarrow> int option \<Rightarrow> int option \<Rightarrow> error + int \<times> int" where
  "resize_dims cfg img height width =
     (let height = (case height of None \<Rightarrow> int (im_height img) | Some h \<Rightarrow> h);
          width = (case width of None \<Rightarrow> int (im_width img) | Some w \<Rightarrow> w)
      in if vae_scale_factor cfg = 0 then Inl ZeroDivisionError
         else Inr (width - width mod vae_scale_factor cfg,
                   height - height mod vae_scale_factor cfg))"

definition resize :: "pil_lib \<Rightarrow> config \<Rightarrow> pil_image \<Rightarrow> int option \<Rightarrow> int option \<Rightarrow> error + pil_image" where
  "resize lib cfg img height width =
     (case resize_dims cfg img height width of
        Inl e \<Rightarrow> Inl e
      | Inr dims \<Rightarrow>
          (case PIL_INTERPOLATION lib (resample cfg) of
             None \<Rightarrow> Inl KeyError
           | Some f \<Rightarrow> pil_resize lib img dims f))"

subsection \<open>\<^verbatim>\<open>VaeImageProcessor.preprocess\<close>\<close>

text \<open>
  The argument is an image, an array or a tensor, or a list of one of these kinds;
  \<open>Unsupported_input\<close> is any other object. Lists that mix the kinds are left out:
  what becomes of them depends on the coercions of numpy and torch.

  For \<open>Unsupported_input\<close> the source reaches
  \<^verbatim>\<open>raise ValueError(f"Input is in incorrect format: ... {', '.join(supported_formats)}")\<close>.
  \<^verbatim>\<open>supported_formats\<close> is a tuple of classes, so \<^verbatim>\<open>str.join\<close> raises
  \<^verbatim>\<open>TypeError\<close> while the message is built, and the \<^verbatim>\<open>ValueError\<close> is never
  raised.
\<close>

datatype image_input =
    PIL_input "pil_image one_or_list"
  | NP_input "farray one_or_list"
  | PT_input "farray one_or_list"
  | Unsupported_input

text \<open>
  The test \<^verbatim>\<open>self.config.do_resize and (height % f != 0 or width % f != 0)\<close> with its
  \<^verbatim>\<open>raise ValueError\<close>, as the exception raised, if any. \<^verbatim>\<open>and\<close> does not evaluate
  the remainders when \<^verbatim>\<open>do_resize\<close> is false.
\<close>

definition check_divisible :: "config \<Rightarrow> nat \<Rightarrow> nat \<Rightarrow> error option" where
  "check_divisible cfg height width =
     (if do_resize cfg then
        (if vae_scale_factor cfg = 0 then Some ZeroDivisionError
         else if int height mod vae_scale_factor cfg \<noteq> 0 \<or> int width mod vae_scale_factor cfg \<noteq> 0
         then Some SizeNotDivisible else None)
      else None)"

text \<open>
  The end of \<^verbatim>\<open>preprocess\<close>, from \<^verbatim>\<open>do_normalize = self.config.do_normalize\<close> on.
  The result of a call is the warnings it emits and what it returns or raises.
\<close>

definition normalize_unless_negative :: "config \<Rightarrow> farray \<Rightarrow> warning list \<times> (error + farray)" where
  "normalize_unless_negative cfg img =
     (if data img = [] then ([], Inl EmptyReduction)
      else if min_list (data img) < 0 then ([RangeDeprecated], Inr img)
      else if do_normalize cfg then ([], Inr (normalize_images img))
      else ([], Inr img))"

definition preprocess ::
  "pil_lib \<Rightarrow> config \<Rightarrow> image_input \<Rightarrow> int option \<Rightarrow> int option \<Rightarrow> warning list \<times> (error + farray)" where
  "preprocess lib cfg img height width =
     (case img of
        Unsupported_input \<Rightarrow> ([], Inl TypeError)
      | PIL_input images \<Rightarrow>
          (case as_list images of
             [] \<Rightarrow> ([], Inl IndexError)
           | _ # _ \<Rightarrow>
               let img = (if do_convert_rgb cfg then map (convert_to_rgb lib) (as_list images)
                            else as_list images)
               in case (if do_resize cfg
                        then sequence_err (map (\<lambda>i. resize lib cfg i height width) img)
                        else Inr img) of
                    Inl e \<Rightarrow> ([], Inl e)
                  | Inr img \<Rightarrow>
                      (case pil_to_numpy (Many img) of
                         Inl e \<Rightarrow> ([], Inl e)
                       | Inr img \<Rightarrow>
                           (case numpy_to_pt img of
                              Inl e \<Rightarrow> ([], Inl e)
                            | Inr img \<Rightarrow> normalize_unless_negative cfg img)))
      | NP_input arrays \<Rightarrow>
          (case as_list arrays of
             [] \<Rightarrow> ([], Inl IndexError)
           | first # _ \<Rightarrow>
               (case (if ndim first = 4 then concatenate_axis0 (as_list arrays)
                      else stack_axis0 (as_list arrays)) of
                  Inl e \<Rightarrow> ([], Inl e)
                | Inr img \<Rightarrow>
                    (case numpy_to_pt (promoted (as_list arrays) img) of
                       Inl e \<Rightarrow> ([], Inl e)
                     | Inr img \<Rightarrow>
                         (case shape img of
                            [_, _, height, width] \<Rightarrow>
                              (case check_divisible cfg height width of
                                 Some e \<Rightarrow> ([], Inl e)
                               | None \<Rightarrow> normalize_unless_negative cfg img)
                          | _ \<Rightarrow> ([], Inl ShapeError)))))
      | PT_input tensors \<Rightarrow>
          (case as_list tensors of
             [] \<Rightarrow> ([], Inl IndexError)
           | first # _ \<Rightarrow>
               (case (if ndim first = 4 then torch_cat (as_list tensors)
                      else stack_axis0 (as_list tensors)) of
                  Inl e \<Rightarrow> ([], Inl e)
                | Inr img \<Rightarrow>
                    (case shape img of
                       [_, channel, height, width] \<Rightarrow>
                         if channel = 4 then ([], Inr (promoted (as_list tensors) img))
                         else (case check_divisible cfg height width of
                                 Some e \<Rightarrow> ([], Inl e)
                               | None \<Rightarrow> normalize_unless_negative cfg (promoted (as_list tensors) img))
                     | _ \<Rightarrow> ([], Inl ShapeError)))))"

subsection \<open>\<^verbatim>\<open>VaeImageProcessor.postprocess\<close>\<close>

text \<open>
  Modelled from the spec: \<^verbatim>\<open>deprecate\<close> is imported from \<^verbatim>\<open>.utils\<close>, which is not
  among the sources. By the spec an unrecognized output format "is treated as a
  deprecated alias and coerced to np with a warning": the call emits its message and
  returns.
\<close>

definition deprecate :: "string \<Rightarrow> warning list" where
  "deprecate output_type = [OutputTypeDeprecated output_type]"

text \<open>
  The argument of \<^verbatim>\<open>postprocess\<close> is a tensor or any other object. What it returns
  is a tensor, an array, a list of images, or \<^verbatim>\<open>None\<close> where the function runs off
  its end.
\<close>

datatype post_input = Tensor farray | NotTensor

datatype post_output =
    Out_tensor farray
  | Out_array farray
  | Out_images "pil_image list"
  | Out_none

text \<open>
  The first statements of both \<^verbatim>\<open>postprocess\<close> methods after the type test: an
  output type that is none of the four names is reported by \<^verbatim>\<open>deprecate\<close> and set to
  \<^verbatim>\<open>"np"\<close>.
\<close>

definition coerce_output_type :: "string \<Rightarrow> warning list \<times> string" where
  "coerce_output_type output_type =
     (if output_type \<notin> set [''latent'', ''pt'', ''np'', ''pil'']
      then (deprecate output_type, ''np'')
      else ([], output_type))"

text \<open>
  The default of \<^verbatim>\<open>do_denormalize\<close> and the \<^verbatim>\<open>torch.stack\<close> of the batch items, each
  denormalized if its flag is set. \<^verbatim>\<open>image.shape[0]\<close> needs an axis,
  \<^verbatim>\<open>do_denormalize[i]\<close> a flag for each item, \<^verbatim>\<open>torch.stack\<close> at least one item.
\<close>

definition denormalize_batch :: "config \<Rightarrow> farray \<Rightarrow> bool list option \<Rightarrow> error + farray" where
  "denormalize_batch cfg img do_denormalize =
     (case shape img of
        [] \<Rightarrow> Inl IndexError
      | n # _ \<Rightarrow>
          let flags = (case do_denormalize of
                         None \<Rightarrow> replicate n (do_normalize cfg)
                       | Some fs \<Rightarrow> fs)
          in if length flags < n then Inl IndexError
             else stack_axis0 (map (\<lambda>i. if flags ! i then denormalize (item img i) else item img i)
                                   [0..<n]))"

definition postprocess ::
  "pil_lib \<Rightarrow> config \<Rightarrow> post_input \<Rightarrow> string \<Rightarrow> bool list option \<Rightarrow> warning list \<times> (error + post_output)" where
  "postprocess lib cfg img output_type do_denormalize =
     (case img of
        NotTensor \<Rightarrow> ([], Inl NotATensor)
      | Tensor img \<Rightarrow>
          (case coerce_output_type output_type of
             (ws, output_type) \<Rightarrow>
               if output_type = ''latent'' then (ws, Inr (Out_tensor img))
               else
                 (case denormalize_batch cfg img do_denormalize of
                    Inl e \<Rightarrow> (ws, Inl e)
                  | Inr img \<Rightarrow>
                      if output_type = ''pt'' then (ws, Inr (Out_tensor img))
                      else
                        (case pt_to_numpy img of
                           Inl e \<Rightarrow> (ws, Inl e)
                         | Inr img \<Rightarrow>
                             if output_type = ''np'' then (ws, Inr (Out_array img))
                             else if output_type = ''pil'' then
                               (case numpy_to_pil lib img of
                                  Inl e \<Rightarrow> (ws, Inl e)
                                | Inr ims \<Rightarrow> (ws, Inr (Out_images ims)))
                             else (ws, Inr Out_none)))))"

subsection \<open>\<^verbatim>\<open>VaeImageProcessorLDM3D\<close>\<close>

text \<open>
  \<^verbatim>\<open>numpy_to_pil\<close> of the subclass keeps the first three channels of every image.
\<close>

definition numpy_to_pil_LDM3D :: "pil_lib \<Rightarrow> farray \<Rightarrow> error + pil_image list" where
  "numpy_to_pil_LDM3D lib images =
     (let images = (if ndim images = 3 then images\<lparr>shape := 1 # shape images\<rparr> else images);
          images = map_array (to_uint8 (dtype images)) images
      in case items images of
           Inl e \<Rightarrow> Inl e
         | Inr ims \<Rightarrow>
             if last (shape images) = 1
             then sequence_err (map (\<lambda>img. pil_fromarray lib (map_array unat (squeeze img)) (Some ''L'')) ims)
             else sequence_err (map (\<lambda>img. case slice_axis 2 0 (Some 3) img of
                                               Inl e \<Rightarrow> Inl e
                                             | Inr rgb \<Rightarrow> pil_fromarray lib (map_array unat rgb) None) ims))"

text \<open>
  \<^verbatim>\<open>rgblike_to_depthmap\<close>: \<^verbatim>\<open>image[:, :, 1] * 2**8 + image[:, :, 2]\<close>. The method is
  applied to \<^verbatim>\<open>uint8\<close> arrays (in \<^verbatim>\<open>numpy_to_depth\<close>) and to floating-point
  arrays (in \<^verbatim>\<open>postprocess\<close>, where they are \<^verbatim>\<open>float32\<close>); the arithmetic of the
  element type is the parameter \<open>arith\<close>.
  For \<^verbatim>\<open>uint8\<close>, the product with the Python integer 256 is a \<^verbatim>\<open>uint16\<close> array
  (the value-based casting of NumPy 1.x), and so is the sum.
\<close>

definition depth_value_u8 :: "8 word \<Rightarrow> 8 word \<Rightarrow> 16 word" where
  "depth_value_u8 hi lo = ucast hi * 2 ^ 8 + ucast lo"

definition depth_value_float :: "dtype \<Rightarrow> real \<Rightarrow> real \<Rightarrow> real" where
  "depth_value_float d hi lo = fl d (fl d (hi * 2 ^ 8) + lo)"

definition rgblike_to_depthmap ::
  "('a \<Rightarrow> 'a \<Rightarrow> 'b) \<Rightarrow> ('a, 'm) ndarray_scheme \<Rightarrow> error + ('b, 'm) ndarray_scheme" where
  "rgblike_to_depthmap arith img =
     (case index_axis 2 1 img of
        Inl e \<Rightarrow> Inl e
      | Inr hi \<Rightarrow>
          (case index_axis 2 2 img of
             Inl e \<Rightarrow> Inl e
           | Inr lo \<Rightarrow> Inr \<lparr>shape = shape hi, data = map2 arith (data hi) (data lo),
                             \<dots> = ndarray.more hi\<rparr>))"

definition numpy_to_depth :: "pil_lib \<Rightarrow> farray \<Rightarrow> error + pil_image list" where
  "numpy_to_depth lib images =
     (let images = (if ndim images = 3 then images\<lparr>shape := 1 # shape images\<rparr> else images);
          images = map_array (to_uint8 (dtype images)) images
      in if shape images = [] then Inl IndexError
         else if last (shape images) = 1 then Inl NotSupported
         else
           (case items images of
              Inl e \<Rightarrow> Inl e
            | Inr ims \<Rightarrow>
                sequence_err
                  (map (\<lambda>img. case slice_axis 2 3 None img of
                                 Inl e \<Rightarrow> Inl e
                               | Inr d \<Rightarrow>
                                   (case rgblike_to_depthmap depth_value_u8 d of
                                      Inl e \<Rightarrow> Inl e
                                    | Inr m \<Rightarrow> pil_fromarray lib (map_array unat m) (Some ''I;16'')))
                       ims)))"

text \<open>
  \<^verbatim>\<open>postprocess\<close> of the subclass returns a pair. The two early returns of the base
  method (\<^verbatim>\<open>"latent"\<close> and \<^verbatim>\<open>"pt"\<close>) are commented out in the source, so these two
  names reach the final \<^verbatim>\<open>else: raise Exception\<close>.
\<close>

definition postprocess_LDM3D ::
  "pil_lib \<Rightarrow> config \<Rightarrow> post_input \<Rightarrow> string \<Rightarrow> bool list option
     \<Rightarrow> warning list \<times> (error + post_output \<times> post_output)" where
  "postprocess_LDM3D lib cfg img output_type do_denormalize =
     (case img of
        NotTensor \<Rightarrow> ([], Inl NotATensor)
      | Tensor img \<Rightarrow>
          (case coerce_output_type output_type of
             (ws, output_type) \<Rightarrow>
               (case denormalize_batch cfg img do_denormalize of
                  Inl e \<Rightarrow> (ws, Inl e)
                | Inr img \<Rightarrow>
                    (case pt_to_numpy img of
                       Inl e \<Rightarrow> (ws, Inl e)
                     | Inr img \<Rightarrow>
                         if output_type = ''np'' then
                           (case slice_axis 3 0 (Some 3) img of
                              Inl e \<Rightarrow> (ws, Inl e)
                            | Inr rgb \<Rightarrow>
                                (case items img of
                                   Inl e \<Rightarrow> (ws, Inl e)
                                 | Inr ims \<Rightarrow>
                                     (case sequence_err
                                             (map (\<lambda>im. case slice_axis 2 3 None im of
                                                           Inl e \<Rightarrow> Inl e
                                                         | Inr d \<Rightarrow> rgblike_to_depthmap (depth_value_float (dtype d)) d)
                                                  ims) of
                                        Inl e \<Rightarrow> (ws, Inl e)
                                      | Inr maps \<Rightarrow>
                                          (case stack_axis0 maps of
                                             Inl e \<Rightarrow> (ws, Inl e)
                                           | Inr depth \<Rightarrow> (ws, Inr (Out_array rgb, Out_array depth))))))
                         else if output_type = ''pil'' then
                           (case numpy_to_pil_LDM3D lib img of
                              Inl e \<Rightarrow> (ws, Inl e)
                            | Inr ims \<Rightarrow>
                                (case numpy_to_depth lib img of
                                   Inl e \<Rightarrow> (ws, Inl e)
                                 | Inr depths \<Rightarrow> (ws, Inr (Out_images ims, Out_images depths))))
                         else (ws, Inl NotSupported)))))"

subsection \<open>The batch that \<^verbatim>\<open>preprocess\<close> builds\<close>

text \<open>
  Names for what the array branch and the tensor branch of \<^verbatim>\<open>preprocess\<close> compute
  first, so that the statements below can speak of "the batched tensor":
  \<open>batch_arrays\<close> is \<^verbatim>\<open>np.concatenate\<close> or \<^verbatim>\<open>np.stack\<close> followed by
  \<^verbatim>\<open>numpy_to_pt\<close>, \<open>batch_tensors\<close> is \<^verbatim>\<open>torch.cat\<close> or \<^verbatim>\<open>torch.stack\<close>;
  both start with \<^verbatim>\<open>image[0]\<close> and give the widest dtype of the list. \<open>not_divisible\<close> is the test
  \<^verbatim>\<open>height % f != 0 or width % f != 0\<close> on the last two axes.
\<close>

definition batch_arrays :: "farray list \<Rightarrow> error + farray" where
  "batch_arrays arrays =
     (case arrays of
        [] \<Rightarrow> Inl IndexError
      | first # _ \<Rightarrow>
          (case (if ndim first = 4 then concatenate_axis0 arrays else stack_axis0 arrays) of
             Inl e \<Rightarrow> Inl e
           | Inr a \<Rightarrow> numpy_to_pt (promoted arrays a)))"

definition batch_tensors :: "farray list \<Rightarrow> error + farray" where
  "batch_tensors tensors =
     (case tensors of
        [] \<Rightarrow> Inl IndexError
      | first # _ \<Rightarrow>
          (case (if ndim first = 4 then torch_cat tensors else stack_axis0 tensors) of
             Inl e \<Rightarrow> Inl e
           | Inr t \<Rightarrow> Inr (promoted tensors t)))"

definition not_divisible :: "config \<Rightarrow> farray \<Rightarrow> bool" where
  "not_divisible cfg t =
     (int (shape t ! 2) mod vae_scale_factor cfg \<noteq> 0 \<or> int (shape t ! 3) mod vae_scale_factor cfg \<noteq> 0)"

text \<open>
  The packing of a 16-bit depth value into an RGB-like pixel, in the words of the
  specification ("channel 1 = high byte, channel 2 = low byte"): the processor only
  decodes, so this definition does not come from the source. Channel 0 is free.
\<close>

definition spec_encode_depth :: "8 word \<Rightarrow> nat \<Rightarrow> 8 word list" where
  "spec_encode_depth c0 v = [c0, of_nat (v div 256), of_nat (v mod 256)]"

subsection \<open>An image library for the closed examples\<close>

text \<open>
  The examples below need some image library. This one converts nothing, resizes to a
  blank image of the requested size, builds an image from an array of two or three
  axes, and knows the filter \<^verbatim>\<open>lanczos\<close>.
\<close>

definition example_lib :: pil_lib where
  "example_lib =
     \<lparr>pil_convert = (\<lambda>mode img. img),
      pil_resize = (\<lambda>img dims f.
         if fst dims \<le> 0 \<or> snd dims \<le> 0 then Inl ImageLibError
         else Inr \<lparr>im_width = nat (fst dims), im_height = nat (snd dims), im_bands = im_bands img,
                   im_pixels = replicate (nat (fst dims) * nat (snd dims) * im_bands img) 0\<rparr>),
      pil_fromarray = (\<lambda>a mode.
         case shape a of
           [h, w] \<Rightarrow> Inr \<lparr>im_width = w, im_height = h, im_bands = 1, im_pixels = data a\<rparr>
         | [h, w, c] \<Rightarrow> Inr \<lparr>im_width = w, im_height = h, im_bands = c, im_pixels = data a\<rparr>
         | _ \<Rightarrow> Inl ImageLibError),
      PIL_INTERPOLATION = (\<lambda>name. if name = ''lanczos'' then Some 1 else None)\<rparr>"

section \<open>Properties\<close>

subsection \<open>Rounding to a floating-point format\<close>

lemma precision_ge: "24 \<le> precision d"
  by (cases d) simp_all

lemma emin_le: "emin d \<le> - 126"
  by (cases d) simp_all

lemma emin_precision: "emin d + 1 \<le> - int (precision d)"
  by (cases d) simp_all

lemma two_powr_precision: "(2::real) powr of_int (int (precision d)) = 2 ^ precision d"
  by (simp add: powr_realpow)

lemma rint_of_int [simp]: "rint (of_int m) = m"
  by (simp add: rint_def)

lemma rint_error: "\<bar>of_int (rint y) - y\<bar> \<le> 1 / 2"
  unfolding rint_def Let_def by (auto simp: abs_if) linarith+

lemma rint_le_int: "y \<le> of_int n \<Longrightarrow> rint y \<le> n"
  unfolding rint_def Let_def
  by (auto simp: floor_le_iff)

lemma rint_ge_int: "of_int n \<le> y \<Longrightarrow> n \<le> rint y"
  unfolding rint_def Let_def
  by (auto simp: le_floor_iff) linarith+

lemma above_power_of_two:
  fixes x :: real
  assumes "2 powr of_int k \<le> \<bar>x\<bar>"
  shows "0 < \<bar>x\<bar>" and "x \<noteq> 0"
proof -
  have "0 < (2::real) powr of_int k" by simp
  then show "0 < \<bar>x\<bar>" using assms by (rule less_le_trans)
  then show "x \<noteq> 0" by simp
qed

lemma fl_exponent_eq:
  assumes "2 powr of_int k \<le> \<bar>x\<bar>" and "\<bar>x\<bar> < 2 powr of_int (k + 1)"
  shows "fl_exponent d x = max k (emin d) - (int (precision d) - 1)"
proof -
  have "0 < \<bar>x\<bar>" using assms(1) by (rule above_power_of_two)
  then have "\<lfloor>log 2 \<bar>x\<bar>\<rfloor> = k"
    using assms by (simp add: floor_log_eq_powr_iff)
  then show ?thesis by (simp add: fl_exponent_def)
qed

lemma fl_exponent_ge: "emin d - (int (precision d) - 1) \<le> fl_exponent d x"
  by (simp add: fl_exponent_def)

lemma fl_exponent_le:
  assumes "x \<noteq> 0" and "\<bar>x\<bar> < 2 powr of_int k" and "emin d + 1 \<le> k"
  shows "fl_exponent d x \<le> k - int (precision d)"
proof -
  have "log 2 \<bar>x\<bar> < of_int k"
    using assms(1,2) by (simp add: log_less_iff)
  then have "\<lfloor>log 2 \<bar>x\<bar>\<rfloor> < k" by (simp add: floor_less_iff)
  then show ?thesis using assms(3) by (simp add: fl_exponent_def)
qed

lemma two_powr_int_add: "(2::real) powr of_int a * 2 powr of_int b = 2 powr of_int (a + b)"
  by (simp add: powr_add)

lemma two_powr_nat: "0 \<le> j \<Longrightarrow> (2::real) powr of_int j = of_int (2 ^ nat j)"
  by (simp add: powr_realpow [symmetric])

lemma fl_scaled_int:
  assumes "x = of_int m * 2 powr of_int e" and "fl_exponent d x \<le> e"
  shows "fl d x = x"
proof (cases "x = 0")
  case True
  then show ?thesis by (simp add: fl_def)
next
  case False
  define E where "E = fl_exponent d x"
  have "x / 2 powr of_int E = of_int m * (2 powr of_int e / 2 powr of_int E)"
    using assms(1) by simp
  also have "2 powr of_int e / 2 powr of_int E = (2::real) powr of_int (e - E)"
    by (simp add: powr_diff)
  also have "\<dots> = of_int (2 ^ nat (e - E))"
    using assms(2) by (intro two_powr_nat) (simp add: E_def)
  finally have q: "x / 2 powr of_int E = of_int (m * 2 ^ nat (e - E))" by simp
  have "fl d x = of_int (rint (x / 2 powr of_int E)) * 2 powr of_int E"
    using False by (simp add: fl_def E_def)
  also have "\<dots> = (x / 2 powr of_int E) * 2 powr of_int E"
    by (simp only: q rint_of_int)
  also have "\<dots> = x" by simp
  finally show ?thesis .
qed

lemma fl_representable:
  assumes "x = of_int m * 2 powr of_int e" and "\<bar>m\<bar> < 2 ^ precision d"
    and "emin d - (int (precision d) - 1) \<le> e"
  shows "fl d x = x"
proof (cases "x = 0")
  case True
  then show ?thesis by (simp add: fl_def)
next
  case False
  have "\<bar>x\<bar> = of_int \<bar>m\<bar> * 2 powr of_int e"
    using assms(1) by (simp add: abs_mult)
  also have "\<dots> < of_int (2 ^ precision d) * 2 powr of_int e"
    using assms(2) by (intro mult_strict_right_mono) (simp_all del: of_int_power of_int_numeral add: of_int_less_iff)
  also have "\<dots> = 2 powr of_int (e + int (precision d))"
  proof -
    have "(2::real) powr of_int (e + int (precision d)) = 2 powr of_int e * 2 powr of_int (int (precision d))"
      by (simp only: of_int_add powr_add)
    then show ?thesis by (simp only: two_powr_precision) simp
  qed
  finally have "\<bar>x\<bar> < 2 powr of_int (e + int (precision d))" .
  then have "fl_exponent d x \<le> e + int (precision d) - int (precision d)"
    using False assms(3) by (intro fl_exponent_le) simp_all
  then show ?thesis using assms(1) by (intro fl_scaled_int [of x m e]) simp_all
qed

lemma fl_of_int: "\<bar>n\<bar> < 2 ^ precision d \<Longrightarrow> fl d (of_int n) = of_int n"
  using fl_representable [of "of_int n" n 0 d] by (cases d) simp_all

lemma fl_power_of_two:
  "emin d - (int (precision d) - 1) \<le> e \<Longrightarrow> fl d (2 powr of_int e) = 2 powr of_int e"
  using fl_representable [of "2 powr of_int e" 1 e d] by (cases d) simp_all

text \<open>
  A fraction \<open>m / 2 ^ j\<close> with a numerator of less than 24 bits and \<open>j \<le> 126\<close> is a value
  of both formats.
\<close>

lemma fl_dyadic:
  assumes "\<bar>m\<bar> < 2 ^ 24" and "j \<le> 126"
  shows "fl d (of_int m / 2 ^ j) = of_int m / 2 ^ j"
proof -
  have "(2::real) powr of_int (- int j) = 1 / 2 powr of_int (int j)"
    by (simp only: of_int_minus powr_minus_divide)
  also have "(2::real) powr of_int (int j) = 2 ^ j" by (simp add: powr_realpow)
  finally have x: "(of_int m / 2 ^ j :: real) = of_int m * 2 powr of_int (- int j)" by simp
  have "(2::int) ^ 24 \<le> 2 ^ precision d"
    using precision_ge [of d] by (intro power_increasing) simp_all
  then have m: "\<bar>m\<bar> < 2 ^ precision d" using assms(1) by linarith
  have e: "emin d - (int (precision d) - 1) \<le> - int j"
    using assms(2) emin_le [of d] precision_ge [of d] by linarith
  show ?thesis using x m e by (rule fl_representable)
qed

lemma fl_minus: "fl d (- x) = - fl d x"
proof -
  have "rint (- y) = - rint y" for y
  proof -
    have *: "\<lfloor>- y\<rfloor> = - \<lceil>y\<rceil>" by (simp add: ceiling_def)
    show ?thesis
    proof (cases "y = of_int \<lfloor>y\<rfloor>")
      case True
      then obtain k where "y = of_int k" by blast
      then show ?thesis using rint_of_int [of "- k"] by simp
    next
      case False
      then have c: "\<lceil>y\<rceil> = \<lfloor>y\<rfloor> + 1" by (simp add: ceiling_altdef)
      show ?thesis
        unfolding rint_def Let_def * c
        by (auto simp: algebra_simps)
    qed
  qed
  then show ?thesis
    by (simp add: fl_def fl_exponent_def)
qed

lemma fl_eval:
  assumes "2 powr of_int k \<le> \<bar>x\<bar>" and "\<bar>x\<bar> < 2 powr of_int (k + 1)"
    and "emin d \<le> k" and "k \<le> int (precision d) - 1"
    and "rint (x * 2 ^ nat (int (precision d) - 1 - k)) = m"
  shows "fl d x = of_int m / 2 ^ nat (int (precision d) - 1 - k)"
proof -
  define q where "q = int (precision d) - 1 - k"
  have e: "fl_exponent d x = - q"
    using fl_exponent_eq [OF assms(1,2), of d] assms(3) by (simp add: q_def)
  have nz: "x \<noteq> 0" using assms(1) by (rule above_power_of_two)
  have p: "(2::real) powr of_int (- q) = 1 / 2 ^ nat q"
  proof -
    have "(2::real) powr of_int (- q) = 1 / 2 powr of_int q"
      by (simp only: of_int_minus powr_minus_divide)
    also have "2 powr of_int q = (2::real) ^ nat q"
      using assms(4) two_powr_nat [of q] by (simp add: q_def)
    finally show ?thesis .
  qed
  have "fl d x = of_int (rint (x / 2 powr of_int (- q))) * 2 powr of_int (- q)"
    using nz by (simp only: fl_def e if_False)
  also have "\<dots> = of_int (rint (x * 2 ^ nat q)) / 2 ^ nat q"
    by (simp only: p) simp
  finally show ?thesis using assms(5) by (simp only: q_def)
qed

lemma fl_at_power_of_two:
  assumes "\<bar>x\<bar> = 2 powr of_int k" and "emin d - (int (precision d) - 1) \<le> k"
  shows "fl d x = x"
proof (cases "0 \<le> x")
  case True
  then show ?thesis using assms fl_power_of_two [of d k] by simp
next
  case False
  then have "x = - (2 powr of_int k)" using assms(1) by simp
  then show ?thesis using assms(2) fl_power_of_two [of d k] by (simp add: fl_minus)
qed

lemma fl_error:
  assumes "\<bar>x\<bar> \<le> 2 powr of_int k" and "emin d + 1 \<le> k"
  shows "\<bar>fl d x - x\<bar> \<le> 2 powr of_int (k - int (precision d) - 1)"
proof -
  consider "x = 0" | "\<bar>x\<bar> = 2 powr of_int k" | "x \<noteq> 0" "\<bar>x\<bar> < 2 powr of_int k"
    using assms(1) by fastforce
  then show ?thesis
  proof cases
    case 1
    then show ?thesis by (simp add: fl_def)
  next
    case 2
    then have "fl d x = x" using assms(2) by (intro fl_at_power_of_two [of x k]) simp_all
    then show ?thesis by simp
  next
    case 3
    define E where "E = fl_exponent d x"
    have E: "E \<le> k - int (precision d)" unfolding E_def using 3 assms(2) by (rule fl_exponent_le)
    have pos: "0 < (2::real) powr of_int E" by simp
    have "fl d x - x = (of_int (rint (x / 2 powr of_int E)) - x / 2 powr of_int E) * 2 powr of_int E"
      using 3(1) by (simp add: fl_def E_def algebra_simps)
    then have "\<bar>fl d x - x\<bar> = \<bar>of_int (rint (x / 2 powr of_int E)) - x / 2 powr of_int E\<bar> * 2 powr of_int E"
      by (simp add: abs_mult)
    also have "\<dots> \<le> 1 / 2 * 2 powr of_int E"
      using rint_error [of "x / 2 powr of_int E"] pos by (intro mult_right_mono) simp_all
    also have "\<dots> = 2 powr of_int (E - 1)"
      by (simp add: powr_diff)
    also have "\<dots> \<le> 2 powr of_int (k - int (precision d) - 1)"
      using E by (intro powr_mono) simp_all
    finally show ?thesis .
  qed
qed

lemma fl_abs_le:
  assumes "\<bar>x\<bar> \<le> 2 powr of_int k" and "emin d + 1 \<le> k"
  shows "\<bar>fl d x\<bar> \<le> 2 powr of_int k"
proof -
  consider "x = 0" | "\<bar>x\<bar> = 2 powr of_int k" | "x \<noteq> 0" "\<bar>x\<bar> < 2 powr of_int k"
    using assms(1) by fastforce
  then show ?thesis
  proof cases
    case 1
    then show ?thesis by (simp add: fl_def)
  next
    case 2
    then have "fl d x = x" using assms(2) by (intro fl_at_power_of_two [of x k]) simp_all
    then show ?thesis using 2 by simp
  next
    case 3
    define E where "E = fl_exponent d x"
    define N :: int where "N = 2 ^ nat (k - E)"
    have E: "E \<le> k - int (precision d)" unfolding E_def using 3 assms(2) by (rule fl_exponent_le)
    have pos: "0 < (2::real) powr of_int E" by simp
    have N: "of_int N = (2::real) powr of_int (k - E)"
      unfolding N_def using E two_powr_nat [of "k - E"] by simp
    have split: "(2::real) powr of_int k = of_int N * 2 powr of_int E"
      unfolding N by (simp add: powr_add [symmetric])
    have "\<bar>x / 2 powr of_int E\<bar> \<le> of_int N"
      using 3(2) pos split by (simp add: abs_divide pos_divide_le_eq)
    then have "x / 2 powr of_int E \<le> of_int N" "of_int (- N) \<le> x / 2 powr of_int E"
      by (simp_all only: abs_le_iff of_int_minus) linarith+
    then have "rint (x / 2 powr of_int E) \<le> N" "- N \<le> rint (x / 2 powr of_int E)"
      using rint_le_int rint_ge_int by blast+
    then have "\<bar>rint (x / 2 powr of_int E)\<bar> \<le> N" by simp
    then have "\<bar>of_int (rint (x / 2 powr of_int E)) :: real\<bar> \<le> of_int N"
      by (metis of_int_abs of_int_le_iff)
    then have "\<bar>of_int (rint (x / 2 powr of_int E)) * 2 powr of_int E\<bar> \<le> of_int N * (2::real) powr of_int E"
      using pos by (simp add: abs_mult)
    then show ?thesis using 3(1) by (simp add: fl_def E_def split)
  qed
qed

lemma fl_exponent_double:
  assumes "x \<noteq> 0"
  shows "fl_exponent d (2 * x) \<le> fl_exponent d x + 1"
proof -
  have "log 2 \<bar>2 * x\<bar> = log 2 \<bar>x\<bar> + 1"
    using assms by (simp add: abs_mult log_mult)
  then have "\<lfloor>log 2 \<bar>2 * x\<bar>\<rfloor> = \<lfloor>log 2 \<bar>x\<bar>\<rfloor> + 1" by simp
  then show ?thesis by (simp add: fl_exponent_def)
qed

lemma fl_double:
  assumes "fl d x = x"
  shows "fl d (2 * x) = 2 * x"
proof (cases "x = 0")
  case True
  then show ?thesis by (simp add: fl_def)
next
  case False
  define E where "E = fl_exponent d x"
  define M where "M = rint (x / 2 powr of_int E)"
  have x: "x = of_int M * 2 powr of_int E"
    using assms False by (simp add: fl_def E_def M_def)
  have "2 * x = of_int M * 2 powr of_int (E + 1)"
    by (subst x) (simp add: powr_add)
  moreover have "fl_exponent d (2 * x) \<le> E + 1"
    unfolding E_def using False by (rule fl_exponent_double)
  ultimately show ?thesis by (rule fl_scaled_int)
qed

lemma fl_fixed_multiple:
  assumes "fl d x = x" and "x \<noteq> 0"
  obtains M where "x = of_int M * 2 powr of_int (fl_exponent d x)"
  using assms by (simp add: fl_def) metis

lemma fl_exponent_lower:
  assumes "2 powr of_int k \<le> \<bar>x\<bar>"
  shows "k - (int (precision d) - 1) \<le> fl_exponent d x"
proof -
  have "0 < \<bar>x\<bar>" using assms by (rule above_power_of_two)
  then have "of_int k \<le> log 2 \<bar>x\<bar>" using assms by (simp add: le_log_iff)
  then have "k \<le> \<lfloor>log 2 \<bar>x\<bar>\<rfloor>" by (simp add: le_floor_iff)
  then show ?thesis by (simp add: fl_exponent_def)
qed

lemma fl_halve:
  assumes "fl d y = y" and "2 powr of_int (emin d + 1) \<le> \<bar>y\<bar>"
  shows "fl d (y / 2) = y / 2"
proof -
  have nz: "y \<noteq> 0" using assms(2) by (rule above_power_of_two)
  obtain M where y: "y = of_int M * 2 powr of_int (fl_exponent d y)"
    using assms(1) nz by (rule fl_fixed_multiple)
  have "of_int (emin d + 1) \<le> log 2 \<bar>y\<bar>"
    using assms(2) nz by (simp only: le_log_iff)
  then have f: "emin d + 1 \<le> \<lfloor>log 2 \<bar>y\<bar>\<rfloor>"
    by (simp only: le_floor_iff)
  have "log 2 \<bar>y / 2\<bar> = log 2 \<bar>y\<bar> - 1"
    using nz by (simp add: log_divide)
  then have "\<lfloor>log 2 \<bar>y / 2\<bar>\<rfloor> = \<lfloor>log 2 \<bar>y\<bar>\<rfloor> - 1" by simp
  then have e: "fl_exponent d (y / 2) = fl_exponent d y - 1"
    using f by (simp add: fl_exponent_def)
  have "y / 2 = of_int M * 2 powr of_int (fl_exponent d y - 1)"
    by (subst y) (simp add: powr_diff)
  then show ?thesis using e by (intro fl_scaled_int [of "y / 2" M "fl_exponent d y - 1"]) simp_all
qed

lemma fl_examples:
  "fl d 0 = 0" "fl d 1 = 1" "fl d (1 / 2) = 1 / 2" "fl d (1 / 4) = 1 / 4" "fl d (3 / 4) = 3 / 4"
  "fl d (- 1) = - 1" "fl d (- 1 / 2) = - 1 / 2" "fl d 2 = 2" "fl d (3 / 2) = 3 / 2"
  using fl_dyadic [of 1 0 d] fl_dyadic [of 1 1 d] fl_dyadic [of 1 2 d] fl_dyadic [of 3 2 d]
    fl_dyadic [of "- 1" 0 d] fl_dyadic [of "- 1" 1 d] fl_dyadic [of 2 0 d] fl_dyadic [of 3 1 d]
  by (simp_all add: fl_def)

lemma clamp_nonexpansive:
  assumes "0 \<le> x" and "x \<le> 1"
  shows "\<bar>clamp 0 1 z - x\<bar> \<le> \<bar>z - x\<bar>"
  using assms by (auto simp: clamp_def min_def max_def)

lemma three_step_error:
  fixes x y h z e :: real
  assumes y1: "\<bar>y - (2 * x - 1)\<bar> \<le> e" and h1: "\<bar>h - y / 2\<bar> \<le> e / 2"
    and z1: "\<bar>z - (h + 1 / 2)\<bar> \<le> e"
  shows "\<bar>z - x\<bar> \<le> 2 * e"
proof -
  have "z - x = (z - (h + 1 / 2)) + (h - y / 2) + (y - (2 * x - 1)) / 2" by (simp add: field_simps)
  then have "\<bar>z - x\<bar> \<le> \<bar>z - (h + 1 / 2)\<bar> + \<bar>h - y / 2\<bar> + \<bar>y - (2 * x - 1)\<bar> / 2"
  proof -
    have "\<bar>(z - (h + 1 / 2)) + (h - y / 2) + (y - (2 * x - 1)) / 2\<bar>
          \<le> \<bar>(z - (h + 1 / 2)) + (h - y / 2)\<bar> + \<bar>(y - (2 * x - 1)) / 2\<bar>"
      by (rule abs_triangle_ineq)
    also have "\<bar>(z - (h + 1 / 2)) + (h - y / 2)\<bar> \<le> \<bar>z - (h + 1 / 2)\<bar> + \<bar>h - y / 2\<bar>"
      by (rule abs_triangle_ineq)
    finally show ?thesis using \<open>z - x = _\<close> by (simp add: abs_divide)
  qed
  also have "\<dots> \<le> e + e / 2 + e / 2"
    using y1 h1 z1 by (intro add_mono divide_right_mono) simp_all
  also have "\<dots> = 2 * e" by simp
  finally show ?thesis .
qed

lemma roundtrip_error:
  assumes "0 \<le> x" and "x \<le> 1" and "fl d x = x"
  shows "\<bar>denormalize_elem d (normalize_elem d x) - x\<bar> \<le> 1 / 2 ^ precision d"
proof -
  define y where "y = fl d (2 * x - 1)"
  define h where "h = fl d (y / 2)"
  define z where "z = fl d (h + 1 / 2)"
  define e :: real where "e = 2 powr of_int (- int (precision d) - 1)"
  have "e / 2 = 2 powr of_int (- int (precision d) - 1 - 1)"
    unfolding e_def by (simp only: of_int_diff powr_diff) simp
  moreover have "- int (precision d) - 1 - 1 = - 1 - int (precision d) - 1" by simp
  ultimately have e2: "e / 2 = 2 powr of_int (- 1 - int (precision d) - 1)"
    by (simp only:)
  have e0: "e = 2 powr of_int (0 - int (precision d) - 1)"
    by (simp add: e_def)
  have "2 * e = 2 powr of_int (- int (precision d))"
    by (simp add: e_def powr_diff)
  also have "\<dots> = 1 / 2 powr of_int (int (precision d))"
    by (simp only: of_int_minus powr_minus_divide)
  finally have e1: "2 * e = 1 / 2 ^ precision d"
    by (simp only: two_powr_precision)
  have m0: "emin d + 1 \<le> 0" and m1: "emin d + 1 \<le> - 1"
    using emin_le [of d] by simp_all
  have n: "normalize_elem d x = y"
    by (simp add: normalize_elem_def y_def fl_double [OF assms(3)])
  have dn: "denormalize_elem d y = clamp 0 1 z"
    by (simp add: denormalize_elem_def h_def z_def)
  have b0: "\<bar>2 * x - 1\<bar> \<le> 2 powr of_int 0" using assms by (simp add: abs_le_iff)
  have y1: "\<bar>y - (2 * x - 1)\<bar> \<le> e"
    unfolding y_def e0 using b0 m0 by (rule fl_error)
  have y2: "\<bar>y\<bar> \<le> 1"
    using fl_abs_le [OF b0 m0] by (simp add: y_def)
  have b1: "\<bar>y / 2\<bar> \<le> 2 powr of_int (- 1)" using y2 by (simp add: powr_minus_divide)
  have h1: "\<bar>h - y / 2\<bar> \<le> e / 2"
    unfolding h_def e2 using b1 m1 by (rule fl_error)
  have h2: "\<bar>h\<bar> \<le> 1 / 2"
    using fl_abs_le [OF b1 m1] by (simp add: h_def powr_minus_divide)
  have b2: "\<bar>h + 1 / 2\<bar> \<le> 2 powr of_int 0" using h2 by (simp add: abs_le_iff)
  have z1: "\<bar>z - (h + 1 / 2)\<bar> \<le> e"
    unfolding z_def e0 using b2 m0 by (rule fl_error)
  have "\<bar>z - x\<bar> \<le> 2 * e"
    using y1 h1 z1 by (rule three_step_error)
  then have "\<bar>clamp 0 1 z - x\<bar> \<le> 2 * e"
    using clamp_nonexpansive [OF assms(1,2), of z] by linarith
  then show ?thesis by (simp only: n dn e1)
qed

lemma float_near_half_grid:
  assumes "fl d x = x" and "1 / 4 \<le> x"
  obtains J :: int where "x * 2 ^ (precision d + 1) = of_int J"
proof -
  define P where "P = int (precision d) + 1"
  have nz: "x \<noteq> 0" using assms(2) by simp
  obtain M where x: "x = of_int M * 2 powr of_int (fl_exponent d x)"
    using assms(1) nz by (rule fl_fixed_multiple)
  have "2 powr of_int (- 2) \<le> \<bar>x\<bar>" using assms(2) by (simp add: powr_minus_divide)
  then have E: "- P \<le> fl_exponent d x" using fl_exponent_lower [of "- 2" x d] by (simp add: P_def)
  have "(2::real) powr of_int P = 2 powr of_int (int (precision d)) * 2 powr of_int 1"
    unfolding P_def by (simp only: two_powr_int_add)
  then have pw: "(2::real) ^ (precision d + 1) = 2 powr of_int P"
    by (simp only: two_powr_precision) simp
  have "x * 2 ^ (precision d + 1) = of_int M * (2 powr of_int (fl_exponent d x) * 2 powr of_int P)"
    unfolding pw by (subst x) simp
  also have "2 powr of_int (fl_exponent d x) * 2 powr of_int P = (2::real) powr of_int (fl_exponent d x + P)"
    by (rule two_powr_int_add)
  also have "\<dots> = of_int (2 ^ nat (fl_exponent d x + P))"
    using E by (intro two_powr_nat) simp
  finally have "x * 2 ^ (precision d + 1) = of_int (M * 2 ^ nat (fl_exponent d x + P))" by simp
  then show thesis by (rule that)
qed

lemma roundtrip_exact:
  assumes "0 \<le> x" and "x \<le> 1" and "fl d x = x" and "fl d (2 * x - 1) = 2 * x - 1"
  shows "denormalize_elem d (normalize_elem d x) = x"
proof -
  define y where "y = 2 * x - 1"
  define p where "p = precision d"
  have n: "normalize_elem d x = y"
    by (simp add: normalize_elem_def y_def fl_double [OF assms(3)] assms(4))
  have half: "fl d (y / 2) = y / 2"
  proof (cases "y = 0 \<or> 2 powr of_int (emin d + 1) \<le> \<bar>y\<bar>")
    case True
    then show ?thesis
      using fl_halve [of d y] assms(4) by (auto simp: y_def fl_def)
  next
    case False
    then have y0: "y \<noteq> 0" and small: "\<bar>y\<bar> < 2 powr of_int (emin d + 1)" by simp_all
    have "(2::real) powr of_int (emin d + 1) \<le> 2 powr of_int (- int p)"
      unfolding p_def using emin_precision [of d] by (intro powr_mono) simp_all
    also have "\<dots> = 1 / 2 powr of_int (int p)"
      by (simp only: of_int_minus powr_minus_divide)
    also have "\<dots> = 1 / 2 ^ p"
      unfolding p_def by (simp only: two_powr_precision)
    finally have sp: "\<bar>y\<bar> < 1 / 2 ^ p" using small by simp
    have "(2::real) ^ 1 \<le> 2 ^ p"
      unfolding p_def using precision_ge [of d] by (intro power_increasing) simp_all
    then have "1 / (2::real) ^ p \<le> 1 / 2" by (simp add: field_simps)
    then have "\<bar>y\<bar> < 1 / 2" using sp by linarith
    then have "1 / 4 \<le> x" unfolding y_def abs_less_iff by linarith
    then obtain J :: int where J: "x * 2 ^ (p + 1) = of_int J"
      unfolding p_def using assms(3) float_near_half_grid by blast
    have "y * 2 ^ p = x * 2 ^ (p + 1) - 2 ^ p" by (simp add: y_def algebra_simps)
    then have K: "y * 2 ^ p = of_int (J - 2 ^ p)" using J by simp
    have "\<bar>y * 2 ^ p\<bar> < 1" using sp by (simp add: abs_mult pos_less_divide_eq)
    then have "\<bar>J - 2 ^ p\<bar> < 1" unfolding K by (metis of_int_abs of_int_less_iff of_int_1)
    then have "J - 2 ^ p = 0" by simp
    then have "y = 0" using K by simp
    with y0 show ?thesis by simp
  qed
  have "y / 2 + 1 / 2 = x" by (simp add: y_def field_simps)
  then have "fl d (fl d (y / 2) + 1 / 2) = x"
    unfolding half using assms(3) by simp
  then show ?thesis
    using assms(1,2) by (simp add: n denormalize_elem_def clamp_def)
qed

lemma fl_nonneg:
  assumes "0 \<le> x"
  shows "0 \<le> fl d x"
proof -
  have "0 \<le> x / 2 powr of_int (fl_exponent d x)" using assms by simp
  then have "0 \<le> rint (x / 2 powr of_int (fl_exponent d x))"
    using rint_ge_int [of 0] by simp
  then show ?thesis by (simp add: fl_def)
qed

lemma fl_le_int:
  assumes "x \<le> of_int n" and "0 \<le> x" and "x < 2 ^ precision d"
  shows "fl d x \<le> of_int n"
proof (cases "x = 0")
  case True
  then show ?thesis using assms(1) by (simp add: fl_def)
next
  case False
  define E where "E = fl_exponent d x"
  have "\<bar>x\<bar> < 2 powr of_int (int (precision d))"
    using assms(2,3) by (simp only: two_powr_precision)
  moreover have "emin d + 1 \<le> int (precision d)"
    using emin_precision [of d] by simp
  ultimately have "E \<le> int (precision d) - int (precision d)"
    unfolding E_def using False by (intro fl_exponent_le)
  then have E: "E \<le> 0" by simp
  have pos: "0 < (2::real) powr of_int E" by simp
  have N: "(2::real) powr of_int (- E) = of_int (2 ^ nat (- E))"
    using E by (intro two_powr_nat) simp
  have "x / 2 powr of_int E \<le> of_int n / 2 powr of_int E"
    using assms(1) pos by (simp add: divide_right_mono)
  also have "\<dots> = of_int n * 2 powr of_int (- E)"
    by (simp add: powr_minus_divide)
  also have "\<dots> = of_int (n * 2 ^ nat (- E))" by (simp only: N of_int_mult)
  finally have "rint (x / 2 powr of_int E) \<le> n * 2 ^ nat (- E)" by (rule rint_le_int)
  then have "(of_int (rint (x / 2 powr of_int E)) :: real) \<le> of_int (n * 2 ^ nat (- E))"
    by (simp only: of_int_le_iff)
  then have "of_int (rint (x / 2 powr of_int E)) * 2 powr of_int E
             \<le> of_int (n * 2 ^ nat (- E)) * (2::real) powr of_int E"
    using pos by (intro mult_right_mono) simp_all
  also have "\<dots> = of_int n * (2 powr of_int (- E) * 2 powr of_int E)"
    by (simp only: N of_int_mult mult.assoc)
  also have "\<dots> = of_int n" by (simp only: two_powr_int_add) simp
  finally show ?thesis using False by (simp add: fl_def E_def)
qed

lemma depth_value_float_bytes:
  assumes "v < 65536"
  shows "depth_value_float d (of_nat (v div 256)) (of_nat (v mod 256)) = of_nat v"
proof -
  have hi: "v div 256 < 256" using assms by simp
  have "(2::int) ^ 24 \<le> 2 ^ precision d"
    using precision_ge [of d] by (intro power_increasing) simp_all
  then have big: "(16777216::int) \<le> 2 ^ precision d" by simp
  have a: "fl d (of_int (int (v div 256) * 256)) = of_int (int (v div 256) * 256)"
    using hi big by (intro fl_of_int) simp
  have "(2::nat) ^ 24 \<le> 2 ^ precision d"
    using precision_ge [of d] by (intro power_increasing) simp_all
  then have "v < 2 ^ precision d" using assms by simp
  then have b: "fl d (of_int (int v)) = of_int (int v)"
    by (intro fl_of_int) simp
  have e1: "real (v div 256) * 2 ^ 8 = of_int (int (v div 256) * 256)" by simp
  have "int (v div 256) * 256 + int (v mod 256) = int v"
    by (metis of_nat_add of_nat_mult of_nat_numeral div_mult_mod_eq)
  then have "(of_int (int (v div 256) * 256 + int (v mod 256)) :: real) = of_int (int v)"
    by (simp only:)
  then have e2: "of_int (int (v div 256) * 256) + real (v mod 256) = (of_int (int v) :: real)"
    by (simp only: of_int_add of_int_of_nat_eq)
  have "fl d (fl d (real (v div 256) * 2 ^ 8) + real (v mod 256)) = of_int (int v)"
    by (simp only: e1 a e2 b)
  then show ?thesis
    unfolding depth_value_float_def by simp
qed

lemma promoted_simps [simp]:
  "shape (promoted xs a) = shape a" "data (promoted xs a) = data a"
  "dtype (promoted xs a) = result_type (map dtype xs)"
  by (simp_all add: promoted_def)

lemma promoted_single [simp]: "dtype a = dtype x \<Longrightarrow> promoted [x] a = a"
  by (simp add: promoted_def result_type_def) (cases "dtype x"; simp)

lemma wf_array_promoted [simp]: "wf_array (promoted xs a) = wf_array a"
  by (simp add: wf_array_def)

lemma fl_more_examples:
  "fl d (7 / 2) = 7 / 2" "fl d 4 = 4" "fl d (5 / 2) = 5 / 2" "fl d 3 = 3"
  using fl_dyadic [of 7 1 d] fl_dyadic [of 4 0 d] fl_dyadic [of 5 1 d] fl_dyadic [of 3 0 d]
  by simp_all

text \<open>
  C9. For every input \<open>x\<close>, whatever its range, \<open>denormalize\<close> returns a value between
  0 and 1: the result of \<open>x / 2 + 0.5\<close> is clamped.
\<close>

theorem denormalize_range:
  "0 \<le> denormalize_elem d x \<and> denormalize_elem d x \<le> 1
   \<and> list_all (\<lambda>y. 0 \<le> y \<and> y \<le> 1) (data (denormalize t))"
  by (simp add: denormalize_def denormalize_elem_def clamp_def list_all_iff)

theorem denormalize_range_witness:
  "denormalize_elem Float32 7 = 1
   \<and> 0 \<le> denormalize_elem Float32 7 \<and> denormalize_elem Float32 7 \<le> 1
   \<and> denormalize \<lparr>shape = [3], data = [- 3, 1 / 2, 5], dtype = Float64\<rparr>
       = \<lparr>shape = [3], data = [0, 3 / 4, 1], dtype = Float64\<rparr>
   \<and> list_all (\<lambda>y. 0 \<le> y \<and> y \<le> 1)
        (data (denormalize \<lparr>shape = [3], data = [- 3, 1 / 2, 5], dtype = Float64\<rparr>))"
  using denormalize_range [of Float32 7 "\<lparr>shape = [3], data = [- 3, 1 / 2, 5], dtype = Float64\<rparr>"]
  by (simp add: denormalize_def denormalize_elem_def clamp_def fl_minus fl_examples fl_more_examples)

subsection \<open>Shapes\<close>

lemma length4E:
  assumes "length xs = 4"
  obtains a b c d where "xs = [a, b, c, d]"
proof -
  from assms obtain a xs1 where "xs = a # xs1" "length xs1 = 3" by (cases xs) auto
  moreover then obtain b xs2 where "xs1 = b # xs2" "length xs2 = 2" by (cases xs1) auto
  moreover then obtain c xs3 where "xs2 = c # xs3" "length xs3 = 1" by (cases xs2) auto
  moreover then obtain d where "xs3 = [d]" by (cases xs3) auto
  ultimately show thesis using that by simp
qed

subsection \<open>The latent passthrough\<close>

text \<open>
  C1. A tensor with four axes whose channel axis has length 4 is returned as it is:
  \<^verbatim>\<open>preprocess\<close> neither checks its size nor normalizes it, and emits no warning,
  whatever the configuration says.
\<close>

theorem preprocess_latent_passthrough:
  "ndim t = 4 \<Longrightarrow> shape t ! 1 = 4 \<Longrightarrow>
   preprocess lib cfg (PT_input (One t)) height width = ([], Inr t)"
proof -
  assume nd: "ndim t = 4" and ch: "shape t ! 1 = 4"
  from nd obtain n c h w where sh: "shape t = [n, c, h, w]"
    by (auto simp: ndim_def elim: length4E)
  with ch have c: "c = 4" by simp
  have cat: "torch_cat [t] = Inr t"
    using sh by (cases t) (simp add: torch_cat_def concatenate_axis0_def)
  show ?thesis
    by (simp add: preprocess_def as_list_def nd cat sh c)
qed

theorem preprocess_latent_passthrough_witness:
  "ndim \<lparr>shape = [1, 4, 1, 2], data = [0, 1 / 2, - 1, 3, 1, 1, 0, 0 :: real], dtype = Float32\<rparr> = 4
   \<and> shape \<lparr>shape = [1, 4, 1, 2], data = [0, 1 / 2, - 1, 3, 1, 1, 0, 0 :: real], dtype = Float32\<rparr> ! 1 = 4
   \<and> preprocess example_lib default_config
        (PT_input (One \<lparr>shape = [1, 4, 1, 2], data = [0, 1 / 2, - 1, 3, 1, 1, 0, 0], dtype = Float32\<rparr>)) None None
      = ([], Inr \<lparr>shape = [1, 4, 1, 2], data = [0, 1 / 2, - 1, 3, 1, 1, 0, 0], dtype = Float32\<rparr>)"
  using preprocess_latent_passthrough
    [where t = "\<lparr>shape = [1, 4, 1, 2], data = [0, 1 / 2, - 1, 3, 1, 1, 0, 0], dtype = Float32\<rparr>"
       and lib = example_lib and cfg = default_config and height = None and width = None]
  by (simp add: ndim_def)

subsection \<open>The size chosen by \<^verbatim>\<open>resize\<close>\<close>

text \<open>
  C7. For a positive scale factor \<open>s\<close>, \<^verbatim>\<open>resize\<close> asks the image library for the
  size \<open>(w - w mod s, h - h mod s)\<close>, where \<open>w\<close> and \<open>h\<close> are the arguments or, by
  default, the size of the image. Both are multiples of \<open>s\<close>, not above \<open>w\<close> and \<open>h\<close>,
  less than \<open>s\<close> below them, and equal to them when these are multiples of \<open>s\<close>.
\<close>

theorem resize_floors_to_multiple:
  "0 < vae_scale_factor cfg \<Longrightarrow>
   (let s = vae_scale_factor cfg;
        w = (case width of None \<Rightarrow> int (im_width img) | Some v \<Rightarrow> v);
        h = (case height of None \<Rightarrow> int (im_height img) | Some v \<Rightarrow> v);
        w' = w - w mod s;
        h' = h - h mod s
    in resize_dims cfg img height width = Inr (w', h')
       \<and> resize lib cfg img height width =
           (case PIL_INTERPOLATION lib (resample cfg) of
              None \<Rightarrow> Inl KeyError
            | Some f \<Rightarrow> pil_resize lib img (w', h') f)
       \<and> w' mod s = 0 \<and> h' mod s = 0
       \<and> w' \<le> w \<and> h' \<le> h
       \<and> w - w' < s \<and> h - h' < s
       \<and> (w mod s = 0 \<longrightarrow> w' = w) \<and> (h mod s = 0 \<longrightarrow> h' = h))"
  by (simp add: Let_def resize_dims_def resize_def mod_diff_left_eq)

theorem resize_floors_to_multiple_witness:
  "0 < vae_scale_factor default_config
   \<and> resize_dims default_config \<lparr>im_width = 70, im_height = 50, im_bands = 3, im_pixels = []\<rparr> None None
       = Inr (64, 48)
   \<and> resize example_lib default_config \<lparr>im_width = 70, im_height = 50, im_bands = 3, im_pixels = []\<rparr> None None
       = Inr \<lparr>im_width = 64, im_height = 48, im_bands = 3, im_pixels = replicate (64 * 48 * 3) 0\<rparr>"
  using resize_floors_to_multiple [where cfg = default_config and height = None and width = None
     and img = "\<lparr>im_width = 70, im_height = 50, im_bands = 3, im_pixels = []\<rparr>" and lib = example_lib]
  by (simp add: default_config_def example_lib_def Let_def)

subsection \<open>Depth values\<close>

lemma ucast_of_nat_small:
  "a < 256 \<Longrightarrow> (ucast (word_of_nat a :: 8 word) :: 16 word) = word_of_nat a"
  by (simp add: unsigned_of_nat take_bit_nat_eq_self)

lemma depth_value_u8_bytes:
  assumes "v < 65536"
  shows "depth_value_u8 (of_nat (v div 256)) (of_nat (v mod 256)) = of_nat v"
proof -
  have hi: "v div 256 < 256" using assms by simp
  have "(word_of_nat v :: 16 word) = word_of_nat (v div 256 * 256 + v mod 256)"
    by simp
  also have "\<dots> = word_of_nat (v div 256) * 256 + word_of_nat (v mod 256)"
    by (simp only: of_nat_add of_nat_mult of_nat_numeral)
  finally have "(word_of_nat v :: 16 word) = word_of_nat (v div 256) * 256 + word_of_nat (v mod 256)" .
  then show ?thesis
    by (simp add: depth_value_u8_def ucast_of_nat_small hi)
qed

lemma unat_depth: "v < 65536 \<Longrightarrow> unat (word_of_nat v :: 16 word) = v"
  by (simp add: unat_of_nat)

lemma nth_concat_chunks:
  assumes "\<And>p. length (f p) = m" and "i < length ps" and "k < m"
  shows "concat (map f ps) ! (i * m + k) = f (ps ! i) ! k"
  using assms(2)
proof (induction ps arbitrary: i)
  case Nil
  then show ?case by simp
next
  case (Cons p ps)
  show ?case
  proof (cases i)
    case 0
    then show ?thesis using assms(1,3) by (simp add: nth_append)
  next
    case (Suc j)
    then have "j < length ps" using Cons.prems by simp
    from Cons.IH [OF this] show ?thesis
      using assms(1) Suc by (simp add: nth_append)
  qed
qed

text \<open>
  C6. A depth map of 16-bit values, packed with the high byte in channel 1 and the low
  byte in channel 2 of a three-channel \<^verbatim>\<open>uint8\<close> image, is what
  \<^verbatim>\<open>rgblike_to_depthmap\<close> returns from that image, as \<^verbatim>\<open>uint16\<close>, whatever channel 0
  holds.
\<close>

theorem depth_packing_roundtrip:
  "length px = h * w \<Longrightarrow> list_all (\<lambda>p. snd p < 65536) px \<Longrightarrow>
   rgblike_to_depthmap depth_value_u8
     \<lparr>shape = [h, w, 3], data = concat (map (\<lambda>p. spec_encode_depth (fst p) (snd p)) px)\<rparr>
   = Inr \<lparr>shape = [h, w], data = map (\<lambda>p. word_of_nat (snd p)) px\<rparr>
   \<and> map unat (map (\<lambda>p. word_of_nat (snd p) :: 16 word) px) = map snd px"
proof -
  assume len: "length px = h * w" and small: "list_all (\<lambda>p. snd p < 65536) px"
  let ?f = "\<lambda>p. spec_encode_depth (fst p) (snd p)"
  let ?d = "concat (map ?f px)"
  have l3: "\<And>p. length (?f p) = 3" by (simp add: spec_encode_depth_def)
  have at: "?d ! (i * 3 + k) = ?f (px ! i) ! k" if "i < length px" "k < 3" for i k
    using nth_concat_chunks [of ?f 3 i px k] l3 that by simp
  have hi: "index_axis 2 1 \<lparr>shape = [h, w, 3], data = ?d\<rparr>
            = Inr \<lparr>shape = [h, w], data = map (\<lambda>i. ?d ! (i * 3 + 1)) [0..<h * w]\<rparr>"
    by (simp add: index_axis_def ndim_def numel_def)
  have lo: "index_axis 2 2 \<lparr>shape = [h, w, 3], data = ?d\<rparr>
            = Inr \<lparr>shape = [h, w], data = map (\<lambda>i. ?d ! (i * 3 + 2)) [0..<h * w]\<rparr>"
    by (simp add: index_axis_def ndim_def numel_def)
  have "map2 depth_value_u8 (map (\<lambda>i. ?d ! (i * 3 + 1)) [0..<h * w]) (map (\<lambda>i. ?d ! (i * 3 + 2)) [0..<h * w])
        = map (\<lambda>p. word_of_nat (snd p)) px"
  proof (rule nth_equalityI)
    show "length (map2 depth_value_u8 (map (\<lambda>i. ?d ! (i * 3 + 1)) [0..<h * w]) (map (\<lambda>i. ?d ! (i * 3 + 2)) [0..<h * w]))
          = length (map (\<lambda>p. word_of_nat (snd p) :: 16 word) px)"
      by (simp add: len)
  next
    fix i
    assume "i < length (map2 depth_value_u8 (map (\<lambda>i. ?d ! (i * 3 + 1)) [0..<h * w]) (map (\<lambda>i. ?d ! (i * 3 + 2)) [0..<h * w]))"
    then have i: "i < length px" by (simp add: len)
    then have v: "snd (px ! i) < 65536" using small by (simp add: list_all_length)
    have "depth_value_u8 (?d ! (i * 3 + 1)) (?d ! (i * 3 + 2)) = word_of_nat (snd (px ! i))"
      using at [OF i, of 1] at [OF i, of 2] depth_value_u8_bytes [OF v]
      by (simp add: spec_encode_depth_def)
    then show "map2 depth_value_u8 (map (\<lambda>i. ?d ! (i * 3 + 1)) [0..<h * w]) (map (\<lambda>i. ?d ! (i * 3 + 2)) [0..<h * w]) ! i
               = map (\<lambda>p. word_of_nat (snd p)) px ! i"
      using i by (simp add: len)
  qed
  moreover have "map unat (map (\<lambda>p. word_of_nat (snd p) :: 16 word) px) = map snd px"
    using small by (induction px) (simp_all add: unat_of_nat)
  ultimately show ?thesis
    unfolding rgblike_to_depthmap_def hi lo by simp
qed

theorem depth_packing_roundtrip_witness:
  "length [(7 :: 8 word, 65535 :: nat), (0, 258)] = 1 * 2
   \<and> list_all (\<lambda>p. snd p < 65536) [(7 :: 8 word, 65535 :: nat), (0, 258)]
   \<and> rgblike_to_depthmap depth_value_u8 \<lparr>shape = [1, 2, 3], data = [7, 255, 255, 0, 1, 2]\<rparr>
       = Inr \<lparr>shape = [1, 2], data = [65535, 258]\<rparr>"
  using depth_packing_roundtrip [where px = "[(7, 65535), (0, 258)]" and h = 1 and w = 2]
  by (simp add: spec_encode_depth_def)

subsection \<open>The batched tensor\<close>

lemma min_list_neg_iff:
  fixes xs :: "real list"
  shows "xs \<noteq> [] \<Longrightarrow> (min_list xs < 0) = (\<exists>x \<in> set xs. x < 0)"
  by (simp add: min_list_Min Min_less_iff)

lemma row_major_less:
  fixes a b m k :: nat
  assumes "a < m" "b < k"
  shows "a * k + b < m * k"
proof -
  have "a * k + b < a * k + k" using assms(2) by simp
  also have "\<dots> = Suc a * k" by simp
  also have "\<dots> \<le> m * k" using assms(1) by (intro mult_le_mono1) simp
  finally show ?thesis .
qed

lemma transpose_index_range:
  fixes n h w c :: nat
  shows "{((i * h + y) * w + x) * c + k | i k y x. i < n \<and> k < c \<and> y < h \<and> x < w} = {..<n * h * w * c}"
proof (intro equalityI subsetI)
  fix j
  assume "j \<in> {((i * h + y) * w + x) * c + k | i k y x. i < n \<and> k < c \<and> y < h \<and> x < w}"
  then obtain i k y x where j: "j = ((i * h + y) * w + x) * c + k"
    and b: "i < n" "k < c" "y < h" "x < w" by blast
  have "i * h + y < n * h" using b by (intro row_major_less)
  then have "(i * h + y) * w + x < n * h * w" using b by (intro row_major_less)
  then have "((i * h + y) * w + x) * c + k < n * h * w * c" using b by (intro row_major_less)
  then show "j \<in> {..<n * h * w * c}" using j by simp
next
  fix j
  assume "j \<in> {..<n * h * w * c}"
  then have j: "j < n * h * w * c" by simp
  then have pos: "0 < c" "0 < w" "0 < h" by (auto intro: Nat.gr0I)
  define q1 where "q1 = j div c"
  define q2 where "q2 = q1 div w"
  have q1: "q1 < n * h * w" unfolding q1_def using j by (simp add: less_mult_imp_div_less)
  have q2: "q2 < n * h" unfolding q2_def using q1 by (simp add: less_mult_imp_div_less)
  have i: "q2 div h < n" using q2 by (simp add: less_mult_imp_div_less)
  have "j = ((q2 div h * h + q2 mod h) * w + q1 mod w) * c + j mod c"
    by (simp add: q1_def q2_def)
  moreover have "j mod c < c" "q2 mod h < h" "q1 mod w < w" using pos by simp_all
  ultimately show "j \<in> {((i * h + y) * w + x) * c + k | i k y x. i < n \<and> k < c \<and> y < h \<and> x < w}"
    using i by blast
qed

lemma transpose_data_set:
  assumes "length d = n * h * w * c"
  shows "set [d ! (((i * h + y) * w + x) * c + k).
            i \<leftarrow> [0..<n], k \<leftarrow> [0..<c], y \<leftarrow> [0..<h], x \<leftarrow> [0..<w]] = set d"
proof -
  have "set [d ! (((i * h + y) * w + x) * c + k).
            i \<leftarrow> [0..<n], k \<leftarrow> [0..<c], y \<leftarrow> [0..<h], x \<leftarrow> [0..<w]]
        = (\<lambda>j. d ! j) ` {((i * h + y) * w + x) * c + k | i k y x. i < n \<and> k < c \<and> y < h \<and> x < w}"
    (is "?L = ?R")
  proof (intro equalityI subsetI)
    fix v assume "v \<in> ?L"
    then obtain i k y x where "i < n" "k < c" "y < h" "x < w"
      and "v = d ! (((i * h + y) * w + x) * c + k)" by auto
    then show "v \<in> ?R" by blast
  next
    fix v assume "v \<in> ?R"
    then obtain i k y x where "i < n" "k < c" "y < h" "x < w"
      and "v = d ! (((i * h + y) * w + x) * c + k)" by blast
    then show "v \<in> ?L" by force
  qed
  also have "\<dots> = (\<lambda>j. d ! j) ` {..<length d}"
    by (simp only: transpose_index_range assms)
  also have "\<dots> = set d"
    by (auto simp: set_conv_nth)
  finally show ?thesis .
qed

lemma preprocess_NP:
  "preprocess lib cfg (NP_input arrays) height width =
     (case batch_arrays (as_list arrays) of
        Inl e \<Rightarrow> ([], Inl e)
      | Inr t \<Rightarrow>
          (case shape t of
             [_, _, h, w] \<Rightarrow>
               (case check_divisible cfg h w of
                  Some e \<Rightarrow> ([], Inl e)
                | None \<Rightarrow> normalize_unless_negative cfg t)
           | _ \<Rightarrow> ([], Inl ShapeError)))"
  by (simp add: preprocess_def batch_arrays_def split: list.splits sum.splits)

lemma preprocess_PT:
  "preprocess lib cfg (PT_input tensors) height width =
     (case batch_tensors (as_list tensors) of
        Inl e \<Rightarrow> ([], Inl e)
      | Inr t \<Rightarrow>
          (case shape t of
             [_, channel, h, w] \<Rightarrow>
               if channel = 4 then ([], Inr t)
               else (case check_divisible cfg h w of
                       Some e \<Rightarrow> ([], Inl e)
                     | None \<Rightarrow> normalize_unless_negative cfg t)
           | _ \<Rightarrow> ([], Inl ShapeError)))"
proof (cases "as_list tensors")
  case Nil
  then show ?thesis by (simp add: preprocess_def batch_tensors_def)
next
  case (Cons first rest)
  show ?thesis
  proof (cases "ndim first = 4")
    case True
    then show ?thesis
      using Cons
      by (cases "torch_cat (first # rest)")
         (simp_all add: preprocess_def batch_tensors_def split: list.splits option.splits)
  next
    case False
    then show ?thesis
      using Cons
      by (cases "stack_axis0 (first # rest)")
         (simp_all add: preprocess_def batch_tensors_def split: list.splits option.splits)
  qed
qed

lemma numpy_to_pt_shape:
  assumes "numpy_to_pt a = Inr t"
  obtains n c h w where "shape t = [n, c, h, w]"
  using assms
  by (auto simp: numpy_to_pt_def transpose_0312_def split: list.splits if_splits)

lemma batch_arrays_shape:
  assumes "batch_arrays arrays = Inr t"
  obtains n c h w where "shape t = [n, c, h, w]"
  using assms
  by (auto simp: batch_arrays_def split: list.splits sum.splits elim: numpy_to_pt_shape)

lemma normalize_unless_negative_no_size_error:
  "snd (normalize_unless_negative cfg t) \<noteq> Inl SizeNotDivisible"
  by (simp add: normalize_unless_negative_def)

lemma normalize_unless_negative_returns:
  "data t \<noteq> [] \<Longrightarrow> \<exists>r. snd (normalize_unless_negative cfg t) = Inr r"
  by (simp add: normalize_unless_negative_def)

lemma check_divisible_iff:
  "vae_scale_factor cfg \<noteq> 0 \<Longrightarrow>
   check_divisible cfg h w =
     (if do_resize cfg \<and> (int h mod vae_scale_factor cfg \<noteq> 0 \<or> int w mod vae_scale_factor cfg \<noteq> 0)
      then Some SizeNotDivisible else None)"
  by (simp add: check_divisible_def)

text \<open>
  C3. Let the scale factor be non-zero. For an array input whose batch is the tensor
  \<open>t\<close>, and for a tensor input whose batch \<open>u\<close> has four axes and a channel axis
  other than 4, \<^verbatim>\<open>preprocess\<close> raises the size error exactly when \<^verbatim>\<open>do_resize\<close> is
  set and the height or the width of the batch is not a multiple of the scale factor.
  When the batch has an element, this is the only way the call can fail: with
  \<^verbatim>\<open>do_resize\<close> unset every height and width is accepted.
\<close>

theorem size_not_divisible_iff:
  "vae_scale_factor cfg \<noteq> 0 \<Longrightarrow>
   (batch_arrays (as_list arrays) = Inr t \<longrightarrow>
      (snd (preprocess lib cfg (NP_input arrays) height width) = Inl SizeNotDivisible)
        = (do_resize cfg \<and> not_divisible cfg t)
      \<and> (data t \<noteq> [] \<longrightarrow>
           (\<exists>e. snd (preprocess lib cfg (NP_input arrays) height width) = Inl e)
             = (do_resize cfg \<and> not_divisible cfg t)))
   \<and> (batch_tensors (as_list tensors) = Inr u \<and> ndim u = 4 \<and> shape u ! 1 \<noteq> 4 \<longrightarrow>
      (snd (preprocess lib cfg (PT_input tensors) height width) = Inl SizeNotDivisible)
        = (do_resize cfg \<and> not_divisible cfg u)
      \<and> (data u \<noteq> [] \<longrightarrow>
           (\<exists>e. snd (preprocess lib cfg (PT_input tensors) height width) = Inl e)
             = (do_resize cfg \<and> not_divisible cfg u)))"
proof (intro conjI impI)
  assume s: "vae_scale_factor cfg \<noteq> 0" and b: "batch_arrays (as_list arrays) = Inr t"
  from b obtain n c h w where sh: "shape t = [n, c, h, w]" by (rule batch_arrays_shape)
  show "(snd (preprocess lib cfg (NP_input arrays) height width) = Inl SizeNotDivisible)
        = (do_resize cfg \<and> not_divisible cfg t)"
    using normalize_unless_negative_no_size_error [of cfg t]
    by (simp add: preprocess_NP b sh check_divisible_iff [OF s] not_divisible_def)
  assume "data t \<noteq> []"
  then obtain r where "snd (normalize_unless_negative cfg t) = Inr r"
    using normalize_unless_negative_returns by blast
  then show "(\<exists>e. snd (preprocess lib cfg (NP_input arrays) height width) = Inl e)
        = (do_resize cfg \<and> not_divisible cfg t)"
    by (simp add: preprocess_NP b sh check_divisible_iff [OF s] not_divisible_def)
next
  assume s: "vae_scale_factor cfg \<noteq> 0"
    and b: "batch_tensors (as_list tensors) = Inr u \<and> ndim u = 4 \<and> shape u ! 1 \<noteq> 4"
  then obtain n c h w where sh: "shape u = [n, c, h, w]"
    by (auto simp: ndim_def elim: length4E)
  with b have c: "c \<noteq> 4" by simp
  show "(snd (preprocess lib cfg (PT_input tensors) height width) = Inl SizeNotDivisible)
        = (do_resize cfg \<and> not_divisible cfg u)"
    using normalize_unless_negative_no_size_error [of cfg u] b
    by (simp add: preprocess_PT sh c check_divisible_iff [OF s] not_divisible_def)
  assume "data u \<noteq> []"
  then obtain r where "snd (normalize_unless_negative cfg u) = Inr r"
    using normalize_unless_negative_returns by blast
  then show "(\<exists>e. snd (preprocess lib cfg (PT_input tensors) height width) = Inl e)
        = (do_resize cfg \<and> not_divisible cfg u)"
    using b by (simp add: preprocess_PT sh c check_divisible_iff [OF s] not_divisible_def)
qed


lemma size_example_array:
  "batch_arrays (as_list (One \<lparr>shape = [1, 1, 2, 3], data = [0, 1 / 2, 1, 1 / 4, 3 / 4, 1], dtype = Float32\<rparr>))
   = Inr \<lparr>shape = [1, 3, 1, 2], data = [0, 1 / 4, 1 / 2, 3 / 4, 1, 1], dtype = Float32\<rparr>"
  by (simp add: batch_arrays_def as_list_def ndim_def concatenate_axis0_def numpy_to_pt_def
      transpose_0312_def upt_rec)

lemma size_example_tensor:
  "batch_tensors (as_list (One \<lparr>shape = [1, 3, 1, 2], data = [0, 1 / 4, 1 / 2, 3 / 4, 1, 1 :: real], dtype = Float32\<rparr>))
   = Inr \<lparr>shape = [1, 3, 1, 2], data = [0, 1 / 4, 1 / 2, 3 / 4, 1, 1], dtype = Float32\<rparr>"
  by (simp add: batch_tensors_def as_list_def ndim_def concatenate_axis0_def torch_cat_def)

theorem size_not_divisible_iff_witness:
  "vae_scale_factor default_config \<noteq> 0
   \<and> batch_arrays (as_list (One \<lparr>shape = [1, 1, 2, 3], data = [0, 1 / 2, 1, 1 / 4, 3 / 4, 1], dtype = Float32\<rparr>))
       = Inr \<lparr>shape = [1, 3, 1, 2], data = [0, 1 / 4, 1 / 2, 3 / 4, 1, 1], dtype = Float32\<rparr>
   \<and> do_resize default_config
   \<and> not_divisible default_config \<lparr>shape = [1, 3, 1, 2], data = [0, 1 / 4, 1 / 2, 3 / 4, 1, 1], dtype = Float32\<rparr>
   \<and> snd (preprocess example_lib default_config
        (NP_input (One \<lparr>shape = [1, 1, 2, 3], data = [0, 1 / 2, 1, 1 / 4, 3 / 4, 1], dtype = Float32\<rparr>)) None None)
       = Inl SizeNotDivisible
   \<and> batch_tensors (as_list (One \<lparr>shape = [1, 3, 1, 2], data = [0, 1 / 4, 1 / 2, 3 / 4, 1, 1 :: real], dtype = Float32\<rparr>))
       = Inr \<lparr>shape = [1, 3, 1, 2], data = [0, 1 / 4, 1 / 2, 3 / 4, 1, 1], dtype = Float32\<rparr>
   \<and> ndim \<lparr>shape = [1, 3, 1, 2], data = [0, 1 / 4, 1 / 2, 3 / 4, 1, 1 :: real], dtype = Float32\<rparr> = 4
   \<and> shape \<lparr>shape = [1, 3, 1, 2], data = [0, 1 / 4, 1 / 2, 3 / 4, 1, 1 :: real], dtype = Float32\<rparr> ! 1 \<noteq> 4
   \<and> snd (preprocess example_lib default_config
        (PT_input (One \<lparr>shape = [1, 3, 1, 2], data = [0, 1 / 4, 1 / 2, 3 / 4, 1, 1], dtype = Float32\<rparr>)) None None)
       = Inl SizeNotDivisible"
  using size_not_divisible_iff
    [where cfg = default_config and lib = example_lib and height = None and width = None
       and arrays = "One \<lparr>shape = [1, 1, 2, 3], data = [0, 1 / 2, 1, 1 / 4, 3 / 4, 1], dtype = Float32\<rparr>"
       and t = "\<lparr>shape = [1, 3, 1, 2], data = [0, 1 / 4, 1 / 2, 3 / 4, 1, 1], dtype = Float32\<rparr>"
       and tensors = "One \<lparr>shape = [1, 3, 1, 2], data = [0, 1 / 4, 1 / 2, 3 / 4, 1, 1], dtype = Float32\<rparr>"
       and u = "\<lparr>shape = [1, 3, 1, 2], data = [0, 1 / 4, 1 / 2, 3 / 4, 1, 1], dtype = Float32\<rparr>"]
    size_example_array size_example_tensor
  by (simp add: default_config_def not_divisible_def ndim_def)

subsection \<open>Input with a negative minimum\<close>

lemma sum_list_const:
  fixes f :: "'a \<Rightarrow> nat"
  shows "list_all (\<lambda>x. f x = k) xs \<Longrightarrow> sum_list (map f xs) = length xs * k"
  by (induction xs) simp_all

lemma sum_list_scaled:
  fixes f g :: "'a \<Rightarrow> nat"
  shows "list_all (\<lambda>x. f x = g x * k) xs \<Longrightarrow> sum_list (map f xs) = sum_list (map g xs) * k"
  by (induction xs) (simp_all add: add_mult_distrib)

lemma stack_axis0_data:
  assumes "stack_axis0 xs = Inr a"
  shows "data a = concat (map data xs)"
    and "list_all wf_array xs \<Longrightarrow> wf_array a"
proof -
  from assms obtain x xs' where xs: "xs = x # xs'" and eq: "list_all (\<lambda>b. shape b = shape x) xs"
    and a: "a = x\<lparr>shape := length xs # shape x, data := concat (map data xs)\<rparr>"
    by (auto simp: stack_axis0_def split: list.splits if_splits)
  show "data a = concat (map data xs)" using a by simp
  assume wf: "list_all wf_array xs"
  have "list_all (\<lambda>b. length (data b) = numel (shape x)) xs"
    using eq wf by (auto simp: list_all_iff wf_array_def)
  then have "sum_list (map (\<lambda>b. length (data b)) xs) = length xs * numel (shape x)"
    by (rule sum_list_const)
  then show "wf_array a"
    using a by (simp add: wf_array_def numel_def length_concat comp_def)
qed

lemma numel_Cons: "shape b \<noteq> [] \<Longrightarrow> numel (shape b) = hd (shape b) * numel (tl (shape b))"
  by (cases "shape b") (simp_all add: numel_def)

lemma concatenate_axis0_data:
  assumes "concatenate_axis0 xs = Inr a"
  shows "data a = concat (map data xs)"
    and "list_all wf_array xs \<Longrightarrow> wf_array a"
proof -
  from assms obtain x rest where eq: "list_all (\<lambda>b. shape b \<noteq> [] \<and> tl (shape b) = rest) xs"
    and a: "a = x\<lparr>shape := sum_list (map (\<lambda>b. hd (shape b)) xs) # rest, data := concat (map data xs)\<rparr>"
    by (auto simp: concatenate_axis0_def split: list.splits if_splits)
  show "data a = concat (map data xs)" using a by simp
  assume wf: "list_all wf_array xs"
  have "list_all (\<lambda>b. length (data b) = hd (shape b) * numel rest) xs"
    using eq wf by (auto simp: list_all_iff wf_array_def numel_Cons)
  then have "sum_list (map (\<lambda>b. length (data b)) xs) = sum_list (map (\<lambda>b. hd (shape b)) xs) * numel rest"
    by (rule sum_list_scaled)
  then show "wf_array a"
    using a by (simp add: wf_array_def numel_def length_concat comp_def)
qed

lemma torch_cat_data:
  assumes "torch_cat xs = Inr a" and "list_all wf_array xs"
  shows "data a = concat (map data xs)"
proof -
  let ?kept = "filter (\<lambda>t. shape t \<noteq> [0]) xs"
  have skipped: "concat (map data ?kept) = concat (map data xs)"
    using assms(2) by (induction xs) (auto simp: wf_array_def numel_def)
  show ?thesis
  proof (cases ?kept)
    case Nil
    with assms(1) have "data a = []"
      by (auto simp: torch_cat_def split: list.splits)
    with Nil skipped show ?thesis by simp
  next
    case (Cons k ks)
    with assms(1) have "concatenate_axis0 ?kept = Inr a"
      by (simp add: torch_cat_def)
    then have "data a = concat (map data ?kept)" by (rule concatenate_axis0_data)
    with skipped show ?thesis by simp
  qed
qed

lemma transpose_0312_set:
  assumes "transpose_0312 a = Inr t" and "wf_array a"
  shows "set (data t) = set (data a)"
proof -
  from assms(1) obtain n h w c where sh: "shape a = [n, h, w, c]"
    and t: "data t = [data a ! (((i * h + y) * w + x) * c + k).
                       i \<leftarrow> [0..<n], k \<leftarrow> [0..<c], y \<leftarrow> [0..<h], x \<leftarrow> [0..<w]]"
    by (auto simp: transpose_0312_def split: list.splits)
  have "length (data a) = n * h * w * c"
    using assms(2) sh by (simp add: wf_array_def numel_def mult.assoc)
  then show ?thesis unfolding t by (rule transpose_data_set)
qed

lemma numpy_to_pt_set:
  assumes "numpy_to_pt a = Inr t" and "wf_array a"
  shows "set (data t) = set (data a)"
proof -
  let ?a = "if ndim a = 3 then a\<lparr>shape := shape a @ [1]\<rparr> else a"
  have "wf_array ?a" using assms(2) by (simp add: wf_array_def numel_def)
  moreover have "transpose_0312 ?a = Inr t" using assms(1) by (simp add: numpy_to_pt_def)
  ultimately have "set (data t) = set (data ?a)" by (rule transpose_0312_set [rotated])
  then show ?thesis by simp
qed

lemma batch_arrays_set:
  assumes "batch_arrays xs = Inr t" and "list_all wf_array xs"
  shows "set (data t) = set (concat (map data xs))"
proof -
  from assms(1) obtain x xs' a where xs: "xs = x # xs'"
    and a: "(if ndim x = 4 then concatenate_axis0 xs else stack_axis0 xs) = Inr a"
    and t: "numpy_to_pt (promoted xs a) = Inr t"
    by (auto simp: batch_arrays_def split: list.splits sum.splits)
  have "data a = concat (map data xs) \<and> wf_array a"
    using a assms(2) stack_axis0_data concatenate_axis0_data by (auto split: if_splits)
  with numpy_to_pt_set [OF t] show ?thesis by simp
qed

lemma batch_tensors_data:
  assumes "batch_tensors xs = Inr t" and "list_all wf_array xs"
  shows "data t = concat (map data xs)"
proof -
  from assms(1) obtain x xs' u where "xs = x # xs'"
    and "(if ndim x = 4 then torch_cat xs else stack_axis0 xs) = Inr u"
    and "t = promoted xs u"
    by (auto simp: batch_tensors_def split: list.splits sum.splits)
  then show ?thesis
    using torch_cat_data [OF _ assms(2), of u] stack_axis0_data(1) [of xs u]
    by (simp split: if_splits)
qed

lemma normalize_unless_negative_neg:
  assumes "data t \<noteq> []" and "min_list (data t) < 0"
  shows "normalize_unless_negative cfg t = ([RangeDeprecated], Inr t)"
  using assms by (simp add: normalize_unless_negative_def)

lemma min_list_cong_set:
  fixes xs ys :: "real list"
  assumes "set xs = set ys" and "ys \<noteq> []"
  shows "xs \<noteq> []" and "min_list xs = min_list ys"
proof -
  show ne: "xs \<noteq> []" using assms by auto
  show "min_list xs = min_list ys"
    using assms ne by (simp add: min_list_Min)
qed

text \<open>
  C4. When an element of an array input, or of a tensor input that is not a latent, is
  negative, \<^verbatim>\<open>preprocess\<close> emits the range warning and returns the batched tensor
  as it is, without the \<open>2 * x - 1\<close> transform, whether \<^verbatim>\<open>do_normalize\<close> is set or
  not; the size check comes first and can still raise.
\<close>

theorem negative_minimum_skips_normalize:
  "(batch_arrays (as_list arrays) = Inr t \<and> list_all wf_array (as_list arrays)
      \<and> concat (map data (as_list arrays)) \<noteq> []
      \<and> min_list (concat (map data (as_list arrays))) < 0 \<longrightarrow>
      preprocess lib cfg (NP_input arrays) height width =
        (case check_divisible cfg (shape t ! 2) (shape t ! 3) of
           Some e \<Rightarrow> ([], Inl e)
         | None \<Rightarrow> ([RangeDeprecated], Inr t)))
   \<and> (batch_tensors (as_list tensors) = Inr u \<and> ndim u = 4 \<and> shape u ! 1 \<noteq> 4
      \<and> list_all wf_array (as_list tensors)
      \<and> concat (map data (as_list tensors)) \<noteq> []
      \<and> min_list (concat (map data (as_list tensors))) < 0 \<longrightarrow>
      preprocess lib cfg (PT_input tensors) height width =
        (case check_divisible cfg (shape u ! 2) (shape u ! 3) of
           Some e \<Rightarrow> ([], Inl e)
         | None \<Rightarrow> ([RangeDeprecated], Inr u)))"
proof (intro conjI impI)
  assume h: "batch_arrays (as_list arrays) = Inr t \<and> list_all wf_array (as_list arrays)
      \<and> concat (map data (as_list arrays)) \<noteq> []
      \<and> min_list (concat (map data (as_list arrays))) < 0"
  then obtain n c hh w where sh: "shape t = [n, c, hh, w]" by (auto elim: batch_arrays_shape)
  from h have "set (data t) = set (concat (map data (as_list arrays)))"
    by (intro batch_arrays_set) simp_all
  with h have "data t \<noteq> []" "min_list (data t) < 0"
    using min_list_cong_set [of "data t" "concat (map data (as_list arrays))"] by simp_all
  then have "normalize_unless_negative cfg t = ([RangeDeprecated], Inr t)"
    by (rule normalize_unless_negative_neg)
  then show "preprocess lib cfg (NP_input arrays) height width =
        (case check_divisible cfg (shape t ! 2) (shape t ! 3) of
           Some e \<Rightarrow> ([], Inl e)
         | None \<Rightarrow> ([RangeDeprecated], Inr t))"
    using h by (simp add: preprocess_NP sh split: option.split)
next
  assume h: "batch_tensors (as_list tensors) = Inr u \<and> ndim u = 4 \<and> shape u ! 1 \<noteq> 4
      \<and> list_all wf_array (as_list tensors)
      \<and> concat (map data (as_list tensors)) \<noteq> []
      \<and> min_list (concat (map data (as_list tensors))) < 0"
  then obtain n c hh w where sh: "shape u = [n, c, hh, w]"
    by (auto simp: ndim_def elim: length4E)
  with h have c: "c \<noteq> 4" by simp
  from h have "data u = concat (map data (as_list tensors))"
    by (intro batch_tensors_data) simp_all
  with h have "data u \<noteq> []" "min_list (data u) < 0" by simp_all
  then have "normalize_unless_negative cfg u = ([RangeDeprecated], Inr u)"
    by (rule normalize_unless_negative_neg)
  then show "preprocess lib cfg (PT_input tensors) height width =
        (case check_divisible cfg (shape u ! 2) (shape u ! 3) of
           Some e \<Rightarrow> ([], Inl e)
         | None \<Rightarrow> ([RangeDeprecated], Inr u))"
    using h by (simp add: preprocess_PT sh c split: option.split)
qed

lemma range_example_array:
  "batch_arrays (as_list (One \<lparr>shape = [1, 1, 2, 3], data = [0, - 1 / 2, 1, 1 / 4, 3 / 4, 1], dtype = Float32\<rparr>))
   = Inr \<lparr>shape = [1, 3, 1, 2], data = [0, 1 / 4, - 1 / 2, 3 / 4, 1, 1], dtype = Float32\<rparr>"
  by (simp add: batch_arrays_def as_list_def ndim_def concatenate_axis0_def numpy_to_pt_def
      transpose_0312_def upt_rec)

lemma range_example_tensor:
  "batch_tensors (as_list (One \<lparr>shape = [1, 3, 1, 2], data = [0, 1 / 4, - 1 / 2, 3 / 4, 1, 1 :: real], dtype = Float32\<rparr>))
   = Inr \<lparr>shape = [1, 3, 1, 2], data = [0, 1 / 4, - 1 / 2, 3 / 4, 1, 1], dtype = Float32\<rparr>"
  by (simp add: batch_tensors_def as_list_def ndim_def concatenate_axis0_def torch_cat_def)

theorem negative_minimum_skips_normalize_witness:
  "batch_arrays (as_list (One \<lparr>shape = [1, 1, 2, 3], data = [0, - 1 / 2, 1, 1 / 4, 3 / 4, 1], dtype = Float32\<rparr>))
     = Inr \<lparr>shape = [1, 3, 1, 2], data = [0, 1 / 4, - 1 / 2, 3 / 4, 1, 1], dtype = Float32\<rparr>
   \<and> list_all wf_array (as_list (One \<lparr>shape = [1, 1, 2, 3], data = [0, - 1 / 2, 1, 1 / 4, 3 / 4, 1 :: real], dtype = Float32\<rparr>))
   \<and> min_list (concat (map data (as_list (One \<lparr>shape = [1, 1, 2, 3], data = [0, - 1 / 2, 1, 1 / 4, 3 / 4, 1 :: real], dtype = Float32\<rparr>)))) < 0
   \<and> do_normalize (default_config\<lparr>do_resize := False\<rparr>)
   \<and> preprocess example_lib (default_config\<lparr>do_resize := False\<rparr>)
        (NP_input (One \<lparr>shape = [1, 1, 2, 3], data = [0, - 1 / 2, 1, 1 / 4, 3 / 4, 1], dtype = Float32\<rparr>)) None None
       = ([RangeDeprecated], Inr \<lparr>shape = [1, 3, 1, 2], data = [0, 1 / 4, - 1 / 2, 3 / 4, 1, 1], dtype = Float32\<rparr>)
   \<and> batch_tensors (as_list (One \<lparr>shape = [1, 3, 1, 2], data = [0, 1 / 4, - 1 / 2, 3 / 4, 1, 1 :: real], dtype = Float32\<rparr>))
       = Inr \<lparr>shape = [1, 3, 1, 2], data = [0, 1 / 4, - 1 / 2, 3 / 4, 1, 1], dtype = Float32\<rparr>
   \<and> preprocess example_lib (default_config\<lparr>do_resize := False\<rparr>)
        (PT_input (One \<lparr>shape = [1, 3, 1, 2], data = [0, 1 / 4, - 1 / 2, 3 / 4, 1, 1], dtype = Float32\<rparr>)) None None
       = ([RangeDeprecated], Inr \<lparr>shape = [1, 3, 1, 2], data = [0, 1 / 4, - 1 / 2, 3 / 4, 1, 1], dtype = Float32\<rparr>)"
  using negative_minimum_skips_normalize
    [where cfg = "default_config\<lparr>do_resize := False\<rparr>" and lib = example_lib
       and height = None and width = None
       and arrays = "One \<lparr>shape = [1, 1, 2, 3], data = [0, - 1 / 2, 1, 1 / 4, 3 / 4, 1], dtype = Float32\<rparr>"
       and t = "\<lparr>shape = [1, 3, 1, 2], data = [0, 1 / 4, - 1 / 2, 3 / 4, 1, 1], dtype = Float32\<rparr>"
       and tensors = "One \<lparr>shape = [1, 3, 1, 2], data = [0, 1 / 4, - 1 / 2, 3 / 4, 1, 1], dtype = Float32\<rparr>"
       and u = "\<lparr>shape = [1, 3, 1, 2], data = [0, 1 / 4, - 1 / 2, 3 / 4, 1, 1], dtype = Float32\<rparr>"]
    range_example_array range_example_tensor
  by (simp add: default_config_def check_divisible_def ndim_def wf_array_def numel_def as_list_def)

subsection \<open>Arrays with four channels\<close>

text \<open>
  C10. The latent passthrough is for tensors only. An array with four channels, of
  shape \<open>(N, H, W, 4)\<close> or \<open>(H, W, 4)\<close> and of either floating-point dtype, goes the
  way of every array: it is transposed to the tensor \<open>t\<close> of shape \<open>(N, 4, H, W)\<close> and
  of the same dtype, its size is checked, and when \<^verbatim>\<open>do_normalize\<close> is set and its
  minimum is not negative, every element \<open>x\<close> of \<open>t\<close> is replaced by \<open>2 * x - 1\<close>,
  computed in the dtype of the array: the product is rounded, and so is the difference.
\<close>

theorem four_channel_array_is_processed:
  "(shape a = [n, h, w, 4] \<or> shape a = [h, w, 4] \<and> n = 1) \<Longrightarrow> wf_array a \<Longrightarrow>
   vae_scale_factor cfg \<noteq> 0 \<Longrightarrow>
   (let t = a\<lparr>shape := [n, 4, h, w],
                data := [data a ! (((i * h + y) * w + x) * 4 + k).
                           i \<leftarrow> [0..<n], k \<leftarrow> [0..<4], y \<leftarrow> [0..<h], x \<leftarrow> [0..<w]]\<rparr>
    in batch_arrays (as_list (One a)) = Inr t
       \<and> dtype t = dtype a
       \<and> set (data t) = set (data a)
       \<and> preprocess lib cfg (NP_input (One a)) height width =
           (if do_resize cfg \<and> (int h mod vae_scale_factor cfg \<noteq> 0 \<or> int w mod vae_scale_factor cfg \<noteq> 0)
            then ([], Inl SizeNotDivisible)
            else if data a = [] then ([], Inl EmptyReduction)
            else if min_list (data a) < 0 then ([RangeDeprecated], Inr t)
            else if do_normalize cfg
            then ([], Inr (t\<lparr>data := map (\<lambda>x. fl (dtype a) (fl (dtype a) (2 * x) - 1)) (data t)\<rparr>))
            else ([], Inr t)))"
proof -
  assume sh: "shape a = [n, h, w, 4] \<or> shape a = [h, w, 4] \<and> n = 1"
    and wf: "wf_array a" and s: "vae_scale_factor cfg \<noteq> 0"
  define t where "t = a\<lparr>shape := [n, 4, h, w],
               data := [data a ! (((i * h + y) * w + x) * 4 + k).
                         i \<leftarrow> [0..<n], k \<leftarrow> [0..<4], y \<leftarrow> [0..<h], x \<leftarrow> [0..<w]]\<rparr>"
  have b: "batch_arrays (as_list (One a)) = Inr t"
    using sh
    by (auto simp: batch_arrays_def as_list_def ndim_def concatenate_axis0_def stack_axis0_def
        numpy_to_pt_def transpose_0312_def t_def)
  have sht: "shape t = [n, 4, h, w]" and dt: "dtype t = dtype a" by (simp_all add: t_def)
  have len: "length (data a) = n * h * w * 4"
    using sh wf by (auto simp: wf_array_def numel_def mult.assoc)
  have set_eq: "set (data t) = set (data a)"
    unfolding t_def using transpose_data_set [OF len] by simp
  have ne: "(data t = []) = (data a = [])"
    using set_eq by (metis set_empty)
  have mn: "min_list (data t) = min_list (data a)" if "data a \<noteq> []"
    using min_list_cong_set(2) [OF set_eq that] .
  have nm: "normalize_images t = t\<lparr>data := map (\<lambda>x. fl (dtype a) (fl (dtype a) (2 * x) - 1)) (data t)\<rparr>"
    by (simp add: normalize_images_def normalize_elem_def dt)
  have "preprocess lib cfg (NP_input (One a)) height width =
           (if do_resize cfg \<and> (int h mod vae_scale_factor cfg \<noteq> 0 \<or> int w mod vae_scale_factor cfg \<noteq> 0)
            then ([], Inl SizeNotDivisible)
            else if data a = [] then ([], Inl EmptyReduction)
            else if min_list (data a) < 0 then ([RangeDeprecated], Inr t)
            else if do_normalize cfg
            then ([], Inr (t\<lparr>data := map (\<lambda>x. fl (dtype a) (fl (dtype a) (2 * x) - 1)) (data t)\<rparr>))
            else ([], Inr t))"
    by (simp add: preprocess_NP b sht check_divisible_iff [OF s] normalize_unless_negative_def ne mn nm)
  with b set_eq dt show ?thesis
    unfolding t_def Let_def by simp
qed

theorem four_channel_array_is_processed_witness:
  "shape \<lparr>shape = [1, 1, 2, 4], data = [0, 1 / 4, 1 / 2, 3 / 4, 1, 1, 0, 1 / 2], dtype = Float64\<rparr> = [1, 1, 2, 4]
   \<and> wf_array \<lparr>shape = [1, 1, 2, 4], data = [0, 1 / 4, 1 / 2, 3 / 4, 1, 1, 0, 1 / 2], dtype = Float64\<rparr>
   \<and> vae_scale_factor (default_config\<lparr>vae_scale_factor := 1\<rparr>) \<noteq> 0
   \<and> do_normalize (default_config\<lparr>vae_scale_factor := 1\<rparr>)
   \<and> batch_arrays (as_list (One \<lparr>shape = [1, 1, 2, 4], data = [0, 1 / 4, 1 / 2, 3 / 4, 1, 1, 0, 1 / 2], dtype = Float64\<rparr>))
       = Inr \<lparr>shape = [1, 4, 1, 2], data = [0, 1, 1 / 4, 1, 1 / 2, 0, 3 / 4, 1 / 2], dtype = Float64\<rparr>
   \<and> preprocess example_lib (default_config\<lparr>vae_scale_factor := 1\<rparr>)
        (NP_input (One \<lparr>shape = [1, 1, 2, 4], data = [0, 1 / 4, 1 / 2, 3 / 4, 1, 1, 0, 1 / 2], dtype = Float64\<rparr>)) None None
       = ([], Inr \<lparr>shape = [1, 4, 1, 2], data = [- 1, 1, - 1 / 2, 1, 0, - 1, 1 / 2, 0], dtype = Float64\<rparr>)"
  using four_channel_array_is_processed
    [where a = "\<lparr>shape = [1, 1, 2, 4], data = [0, 1 / 4, 1 / 2, 3 / 4, 1, 1, 0, 1 / 2], dtype = Float64\<rparr>"
       and n = 1 and h = 1 and w = 2 and cfg = "default_config\<lparr>vae_scale_factor := 1\<rparr>"
       and lib = example_lib and height = None and width = None]
  by (simp add: default_config_def wf_array_def numel_def upt_rec Let_def fl_minus fl_examples)

subsection \<open>Output types that are none of the four names\<close>

lemma coerce_output_type_other:
  "output_type \<notin> set [''latent'', ''pt'', ''np'', ''pil''] \<Longrightarrow>
   coerce_output_type output_type = ([OutputTypeDeprecated output_type], ''np'')"
  by (simp add: coerce_output_type_def deprecate_def)

lemma coerce_output_type_known:
  "output_type \<in> set [''latent'', ''pt'', ''np'', ''pil''] \<Longrightarrow>
   coerce_output_type output_type = ([], output_type)"
  by (simp add: coerce_output_type_def)

lemma sequence_err_not:
  "list_all (\<lambda>r. r \<noteq> Inl e) rs \<Longrightarrow> sequence_err rs \<noteq> Inl e"
  by (induction rs rule: sequence_err.induct) (auto split: sum.splits)

lemma stack_axis0_not_NotSupported: "stack_axis0 xs \<noteq> Inl NotSupported"
  by (simp add: stack_axis0_def split: list.splits)

lemma denormalize_batch_not_NotSupported: "denormalize_batch cfg t dd \<noteq> Inl NotSupported"
  by (simp add: denormalize_batch_def Let_def stack_axis0_not_NotSupported split: list.splits)

lemma pt_to_numpy_not_NotSupported: "pt_to_numpy t \<noteq> Inl NotSupported"
  by (simp add: pt_to_numpy_def permute_0231_def split: list.splits)

lemma slice_axis_not_NotSupported: "slice_axis ax lo hi a \<noteq> Inl NotSupported"
  by (simp add: slice_axis_def Let_def)

lemma items_not_NotSupported: "items a \<noteq> Inl NotSupported"
  by (simp add: items_def split: list.splits)

lemma rgblike_to_depthmap_not_NotSupported: "rgblike_to_depthmap f a \<noteq> Inl NotSupported"
  by (simp add: rgblike_to_depthmap_def index_axis_def Let_def split: sum.splits)

lemma depth_maps_not_NotSupported:
  "sequence_err (map (\<lambda>im. case slice_axis 2 3 None im of
                               Inl e \<Rightarrow> Inl e
                             | Inr d \<Rightarrow> rgblike_to_depthmap (depth_value_float (dtype d)) d) ims) \<noteq> Inl NotSupported"
  by (rule sequence_err_not)
     (auto simp: list_all_iff slice_axis_not_NotSupported rgblike_to_depthmap_not_NotSupported
           split: sum.splits)

lemma postprocess_LDM3D_np_not_NotSupported:
  "snd (postprocess_LDM3D lib cfg img ''np'' dd) \<noteq> Inl NotSupported"
  by (auto simp: postprocess_LDM3D_def coerce_output_type_def
        denormalize_batch_not_NotSupported pt_to_numpy_not_NotSupported
        slice_axis_not_NotSupported items_not_NotSupported depth_maps_not_NotSupported
        stack_axis0_not_NotSupported
      split: post_input.splits sum.splits)


text \<open>
  C5, as the code has it. An output type outside \<^verbatim>\<open>latent\<close>, \<^verbatim>\<open>pt\<close>, \<^verbatim>\<open>np\<close>,
  \<^verbatim>\<open>pil\<close> is treated by \<^verbatim>\<open>VaeImageProcessorLDM3D.postprocess\<close> as by the base
  method: the deprecation message is emitted and the call goes on as for \<^verbatim>\<open>np\<close>; it
  never ends in the \<^verbatim>\<open>raise Exception("This type ... is not supported")\<close>. The two
  names that do reach that \<^verbatim>\<open>raise\<close> are \<^verbatim>\<open>latent\<close> and \<^verbatim>\<open>pt\<close>.
\<close>

theorem unknown_output_type_is_coerced:
  "output_type \<notin> set [''latent'', ''pt'', ''np'', ''pil''] \<Longrightarrow>
   postprocess_LDM3D lib cfg (Tensor t) output_type dd
     = ([OutputTypeDeprecated output_type], snd (postprocess_LDM3D lib cfg (Tensor t) ''np'' dd))
   \<and> snd (postprocess_LDM3D lib cfg (Tensor t) output_type dd) \<noteq> Inl NotSupported
   \<and> postprocess lib cfg (Tensor t) output_type dd
     = ([OutputTypeDeprecated output_type], snd (postprocess lib cfg (Tensor t) ''np'' dd))
   \<and> (denormalize_batch cfg t dd = Inr d \<and> pt_to_numpy d = Inr a \<longrightarrow>
        postprocess_LDM3D lib cfg (Tensor t) ''latent'' dd = ([], Inl NotSupported)
        \<and> postprocess_LDM3D lib cfg (Tensor t) ''pt'' dd = ([], Inl NotSupported))"
proof (intro conjI impI)
  assume other: "output_type \<notin> set [''latent'', ''pt'', ''np'', ''pil'']"
  have np: "coerce_output_type ''np'' = ([], ''np'')" by (simp add: coerce_output_type_def)
  show eq: "postprocess_LDM3D lib cfg (Tensor t) output_type dd
     = ([OutputTypeDeprecated output_type], snd (postprocess_LDM3D lib cfg (Tensor t) ''np'' dd))"
    by (simp add: postprocess_LDM3D_def coerce_output_type_other [OF other] np split: sum.splits)
  show "snd (postprocess_LDM3D lib cfg (Tensor t) output_type dd) \<noteq> Inl NotSupported"
    using postprocess_LDM3D_np_not_NotSupported [of lib cfg "Tensor t" dd] by (simp add: eq)
  show "postprocess lib cfg (Tensor t) output_type dd
     = ([OutputTypeDeprecated output_type], snd (postprocess lib cfg (Tensor t) ''np'' dd))"
    by (simp add: postprocess_def coerce_output_type_other [OF other] np split: sum.splits)
next
  assume "denormalize_batch cfg t dd = Inr d \<and> pt_to_numpy d = Inr a"
  then show "postprocess_LDM3D lib cfg (Tensor t) ''latent'' dd = ([], Inl NotSupported)"
    and "postprocess_LDM3D lib cfg (Tensor t) ''pt'' dd = ([], Inl NotSupported)"
    by (simp_all add: postprocess_LDM3D_def coerce_output_type_def)
qed


lemma depth_example_batch:
  "denormalize_batch default_config \<lparr>shape = [1, 6, 1, 1], data = [1 / 4, 1 / 2, 3 / 4, 0, 0, 0], dtype = Float32\<rparr> (Some [False])
   = Inr \<lparr>shape = [1, 6, 1, 1], data = [1 / 4, 1 / 2, 3 / 4, 0, 0, 0], dtype = Float32\<rparr>"
  by (simp add: denormalize_batch_def stack_axis0_def item_def numel_def)

lemma depth_example_array:
  "pt_to_numpy \<lparr>shape = [1, 6, 1, 1], data = [1 / 4, 1 / 2, 3 / 4, 0, 0, 0 :: real], dtype = Float32\<rparr>
   = Inr \<lparr>shape = [1, 1, 1, 6], data = [1 / 4, 1 / 2, 3 / 4, 0, 0, 0], dtype = Float32\<rparr>"
  by (simp add: pt_to_numpy_def permute_0231_def upt_rec fl_examples)

lemma depth_example_np:
  "postprocess_LDM3D example_lib default_config
     (Tensor \<lparr>shape = [1, 6, 1, 1], data = [1 / 4, 1 / 2, 3 / 4, 0, 0, 0], dtype = Float32\<rparr>) ''np'' (Some [False])
   = ([], Inr (Out_array \<lparr>shape = [1, 1, 1, 3], data = [1 / 4, 1 / 2, 3 / 4], dtype = Float32\<rparr>,
               Out_array \<lparr>shape = [1, 1, 1], data = [0], dtype = Float32\<rparr>))"
  by (simp add: postprocess_LDM3D_def coerce_output_type_def denormalize_batch_def
      pt_to_numpy_def permute_0231_def
      slice_axis_def items_def item_def ndim_def numel_def rgblike_to_depthmap_def index_axis_def
      depth_value_float_def fl_examples stack_axis0_def upt_rec Let_def)

theorem unknown_output_type_is_coerced_witness:
  "''jpg'' \<notin> set [''latent'', ''pt'', ''np'', ''pil'']
   \<and> postprocess_LDM3D example_lib default_config
        (Tensor \<lparr>shape = [1, 6, 1, 1], data = [1 / 4, 1 / 2, 3 / 4, 0, 0, 0], dtype = Float32\<rparr>) ''jpg'' (Some [False])
      = ([OutputTypeDeprecated ''jpg''],
         Inr (Out_array \<lparr>shape = [1, 1, 1, 3], data = [1 / 4, 1 / 2, 3 / 4], dtype = Float32\<rparr>,
              Out_array \<lparr>shape = [1, 1, 1], data = [0], dtype = Float32\<rparr>))
   \<and> postprocess example_lib default_config
        (Tensor \<lparr>shape = [1, 6, 1, 1], data = [1 / 4, 1 / 2, 3 / 4, 0, 0, 0], dtype = Float32\<rparr>) ''jpg'' (Some [False])
      = ([OutputTypeDeprecated ''jpg''],
         Inr (Out_array \<lparr>shape = [1, 1, 1, 6], data = [1 / 4, 1 / 2, 3 / 4, 0, 0, 0], dtype = Float32\<rparr>))
   \<and> denormalize_batch default_config
        \<lparr>shape = [1, 6, 1, 1], data = [1 / 4, 1 / 2, 3 / 4, 0, 0, 0], dtype = Float32\<rparr> (Some [False])
      = Inr \<lparr>shape = [1, 6, 1, 1], data = [1 / 4, 1 / 2, 3 / 4, 0, 0, 0], dtype = Float32\<rparr>
   \<and> pt_to_numpy \<lparr>shape = [1, 6, 1, 1], data = [1 / 4, 1 / 2, 3 / 4, 0, 0, 0 :: real], dtype = Float32\<rparr>
      = Inr \<lparr>shape = [1, 1, 1, 6], data = [1 / 4, 1 / 2, 3 / 4, 0, 0, 0], dtype = Float32\<rparr>
   \<and> postprocess_LDM3D example_lib default_config
        (Tensor \<lparr>shape = [1, 6, 1, 1], data = [1 / 4, 1 / 2, 3 / 4, 0, 0, 0], dtype = Float32\<rparr>) ''latent'' (Some [False])
      = ([], Inl NotSupported)
   \<and> postprocess_LDM3D example_lib default_config
        (Tensor \<lparr>shape = [1, 6, 1, 1], data = [1 / 4, 1 / 2, 3 / 4, 0, 0, 0], dtype = Float32\<rparr>) ''pt'' (Some [False])
      = ([], Inl NotSupported)"
  using unknown_output_type_is_coerced
    [where output_type = "''jpg''" and lib = example_lib and cfg = default_config
       and t = "\<lparr>shape = [1, 6, 1, 1], data = [1 / 4, 1 / 2, 3 / 4, 0, 0, 0], dtype = Float32\<rparr>"
       and dd = "Some [False]"
       and d = "\<lparr>shape = [1, 6, 1, 1], data = [1 / 4, 1 / 2, 3 / 4, 0, 0, 0], dtype = Float32\<rparr>"
       and a = "\<lparr>shape = [1, 1, 1, 6], data = [1 / 4, 1 / 2, 3 / 4, 0, 0, 0], dtype = Float32\<rparr>"]
    depth_example_batch depth_example_array depth_example_np
  by (simp add: postprocess_def coerce_output_type_def deprecate_def)


text \<open>
  The claim as it was stated fails: with the output type \<^verbatim>\<open>jpg\<close> the depth
  \<^verbatim>\<open>postprocess\<close> returns the pair of arrays of \<^verbatim>\<open>np\<close>.
\<close>

theorem depth_postprocess_coerces_counterexample:
  "postprocess_LDM3D example_lib default_config
     (Tensor \<lparr>shape = [1, 6, 1, 1], data = [1 / 4, 1 / 2, 3 / 4, 0, 0, 0], dtype = Float32\<rparr>) ''jpg'' (Some [False])
   = ([OutputTypeDeprecated ''jpg''],
      Inr (Out_array \<lparr>shape = [1, 1, 1, 3], data = [1 / 4, 1 / 2, 3 / 4], dtype = Float32\<rparr>,
           Out_array \<lparr>shape = [1, 1, 1], data = [0], dtype = Float32\<rparr>))"
  by (simp add: postprocess_LDM3D_def coerce_output_type_def deprecate_def denormalize_batch_def
      pt_to_numpy_def permute_0231_def
      slice_axis_def items_def item_def ndim_def numel_def rgblike_to_depthmap_def index_axis_def
      depth_value_float_def fl_examples stack_axis0_def upt_rec Let_def)

subsection \<open>The round trip of \<^verbatim>\<open>normalize\<close> and \<^verbatim>\<open>denormalize\<close>\<close>

text \<open>
  C2, as the code has it. In exact real arithmetic \<^verbatim>\<open>denormalize\<close> is a left inverse
  of \<^verbatim>\<open>normalize\<close> on the interval from 0 to 1: \<open>clamp ((2 * x - 1) / 2 + 0.5) = x\<close>.
  In floating-point arithmetic, for a value \<open>x\<close> of the format between 0 and 1,
  \<^verbatim>\<open>denormalize(normalize(x))\<close> is \<open>x\<close> up to the rounding of the three operations,
  within \<open>1 / 2 ^ p\<close> for the precision \<open>p\<close> of the format (24 for \<^verbatim>\<open>float32\<close>), and it
  is exactly \<open>x\<close> whenever \<open>2 * x - 1\<close> is itself a value of the format, so that
  \<^verbatim>\<open>normalize\<close> does not round.
\<close>

theorem roundtrip_up_to_rounding:
  "0 \<le> x \<Longrightarrow> x \<le> 1 \<Longrightarrow>
   clamp 0 1 ((2 * x - 1) / 2 + 1 / 2) = x
   \<and> (fl d x = x \<longrightarrow>
        \<bar>denormalize_elem d (normalize_elem d x) - x\<bar> \<le> 1 / 2 ^ precision d
        \<and> (fl d (2 * x - 1) = 2 * x - 1 \<longrightarrow> denormalize_elem d (normalize_elem d x) = x))"
proof -
  assume x: "0 \<le> x" "x \<le> 1"
  have "(2 * x - 1) / 2 + 1 / 2 = x" by (simp add: field_simps)
  then have "clamp 0 1 ((2 * x - 1) / 2 + 1 / 2) = x"
    using x by (simp add: clamp_def)
  then show ?thesis
    using roundtrip_error [OF x, of d] roundtrip_exact [OF x, of d] by simp
qed

theorem roundtrip_up_to_rounding_witness:
  "(0::real) \<le> 3 / 4 \<and> (3::real) / 4 \<le> 1
   \<and> clamp 0 1 ((2 * (3 / 4) - 1) / 2 + 1 / 2) = 3 / 4
   \<and> fl Float32 (3 / 4) = 3 / 4
   \<and> fl Float32 (2 * (3 / 4) - 1) = 2 * (3 / 4) - 1
   \<and> normalize_elem Float32 (3 / 4) = 1 / 2
   \<and> denormalize_elem Float32 (normalize_elem Float32 (3 / 4)) = 3 / 4"
proof -
  have n: "normalize_elem Float32 (3 / 4) = 1 / 2"
    by (simp add: normalize_elem_def fl_examples)
  show ?thesis
    using roundtrip_up_to_rounding [of "3 / 4" Float32] by (simp add: fl_examples n)
qed

text \<open>
  The claim as it was stated fails in both formats. \<open>x = 1 / 2 ^ 30\<close> is a
  \<^verbatim>\<open>float32\<close>, \<open>2 * x - 1\<close> rounds to \<open>-1\<close>, and \<^verbatim>\<open>denormalize\<close> takes \<open>-1\<close> to 0;
  the same happens to \<open>x = 1 / 2 ^ 60\<close> in \<^verbatim>\<open>float64\<close>.
\<close>

lemma normalize_small: "normalize_elem Float32 (1 / 2 ^ 30) = - 1"
proof -
  have a: "fl Float32 (2 * (1 / 2 ^ 30)) = 1 / 2 ^ 29"
    using fl_dyadic [of 1 29 Float32] by simp
  have r: "rint ((1 / 2 ^ 29 - 1) * 2 ^ nat (int (precision Float32) - 1 - (- 1))) = - 16777216"
    by (simp add: rint_def)
  have "fl Float32 (1 / 2 ^ 29 - 1) = - 1"
    using fl_eval [of "- 1" "1 / 2 ^ 29 - 1" Float32 "- 16777216", OF _ _ _ _ r]
    by (simp add: powr_minus_divide)
  then show ?thesis by (simp only: normalize_elem_def a)
qed

lemma normalize_small_double: "normalize_elem Float64 (1 / 2 ^ 60) = - 1"
proof -
  have a: "fl Float64 (2 * (1 / 2 ^ 60)) = 1 / 2 ^ 59"
    using fl_dyadic [of 1 59 Float64] by simp
  have r: "rint ((1 / 2 ^ 59 - 1) * 2 ^ nat (int (precision Float64) - 1 - (- 1))) = - 9007199254740992"
    by (simp add: rint_def)
  have "fl Float64 (1 / 2 ^ 59 - 1) = - 1"
    using fl_eval [of "- 1" "1 / 2 ^ 59 - 1" Float64 "- 9007199254740992", OF _ _ _ _ r]
    by (simp add: powr_minus_divide)
  then show ?thesis by (simp only: normalize_elem_def a)
qed

lemma denormalize_minus_one: "denormalize_elem d (- 1) = 0"
  by (simp add: denormalize_elem_def clamp_def fl_minus fl_examples)

theorem roundtrip_not_exact_counterexample:
  "(0::real) \<le> 1 / 2 ^ 30 \<and> (1::real) / 2 ^ 30 \<le> 1 \<and> fl Float32 (1 / 2 ^ 30) = 1 / 2 ^ 30
   \<and> normalize_elem Float32 (1 / 2 ^ 30) = - 1
   \<and> denormalize_elem Float32 (normalize_elem Float32 (1 / 2 ^ 30)) = 0
   \<and> denormalize_elem Float32 (normalize_elem Float32 (1 / 2 ^ 30)) \<noteq> 1 / 2 ^ 30
   \<and> fl Float64 (1 / 2 ^ 60) = 1 / 2 ^ 60
   \<and> denormalize_elem Float64 (normalize_elem Float64 (1 / 2 ^ 60)) = 0"
proof -
  have "fl Float32 (1 / 2 ^ 30) = 1 / 2 ^ 30"
    using fl_dyadic [of 1 30 Float32] by simp
  moreover have "fl Float64 (1 / 2 ^ 60) = 1 / 2 ^ 60"
    using fl_dyadic [of 1 60 Float64] by simp
  ultimately show ?thesis
    by (simp only: normalize_small normalize_small_double denormalize_minus_one) simp
qed

subsection \<open>Pixel values of \<^verbatim>\<open>numpy_to_pil\<close>\<close>

lemma astype_uint8_of_int: "astype_uint8 (of_int r) = word_of_int r"
  by (simp add: astype_uint8_def)

lemma to_uint8_eq: "to_uint8 d x = word_of_int (rint (fl d (x * 255)))"
  by (simp add: to_uint8_def np_round_def astype_uint8_of_int)

lemma scaled_pixel_range:
  assumes "0 \<le> x" and "x \<le> 1"
  shows "0 \<le> rint (fl d (x * 255))" and "rint (fl d (x * 255)) \<le> 255"
proof -
  have "(2::real) ^ 24 \<le> 2 ^ precision d"
    using precision_ge [of d] by (intro power_increasing) simp_all
  then have p: "0 \<le> x * 255" "x * 255 \<le> of_int 255" "x * 255 < 2 ^ precision d"
    using assms by simp_all
  have "0 \<le> fl d (x * 255)" using p(1) by (rule fl_nonneg)
  then show "0 \<le> rint (fl d (x * 255))" using rint_ge_int [of 0] by simp
  have "fl d (x * 255) \<le> of_int 255" using p(2,1,3) by (rule fl_le_int)
  then show "rint (fl d (x * 255)) \<le> 255" by (rule rint_le_int)
qed

text \<open>
  C8, as the code has it. \<^verbatim>\<open>numpy_to_pil\<close> turns every element \<open>x\<close> of an array of
  dtype \<open>d\<close> into the byte \<open>to_uint8 d x\<close>, which is \<open>round(x * 255)\<close> reduced modulo 256: the source has no
  clamp. For \<open>x\<close> between 0 and 1 the rounded product lies between 0 and 255, so
  there the byte is \<open>round(x * 255)\<close> and clamping would change nothing; outside that
  range the value wraps.
\<close>

theorem to_uint8_wraps:
  "uint (to_uint8 d x) = rint (fl d (x * 255)) mod 256
   \<and> (0 \<le> x \<and> x \<le> 1 \<longrightarrow>
        uint (to_uint8 d x) = rint (fl d (x * 255))
        \<and> uint (to_uint8 d x) = max 0 (min 255 (rint (fl d (x * 255)))))"
proof (intro conjI impI)
  show m: "uint (to_uint8 d x) = rint (fl d (x * 255)) mod 256"
    by (simp add: to_uint8_eq uint_word_of_int)
  assume "0 \<le> x \<and> x \<le> 1"
  then have r: "0 \<le> rint (fl d (x * 255))" "rint (fl d (x * 255)) \<le> 255"
    using scaled_pixel_range by simp_all
  then show e: "uint (to_uint8 d x) = rint (fl d (x * 255))"
    using m by simp
  show "uint (to_uint8 d x) = max 0 (min 255 (rint (fl d (x * 255))))"
    using r e by simp
qed


lemma fl_pixel_examples:
  "fl d 510 = 510" "fl d 255 = 255"
  using fl_dyadic [of 510 0 d] fl_dyadic [of 255 0 d] by simp_all

lemma to_uint8_examples:
  "to_uint8 d 2 = 254" "to_uint8 d 0 = 0" "to_uint8 d 1 = 255" "to_uint8 d (- 1) = 1"
proof -
  have a: "fl d 510 = 510" by (rule fl_pixel_examples)
  have b: "fl d 255 = 255" by (rule fl_pixel_examples)
  have c: "fl d (- 255) = - 255" by (simp add: fl_minus fl_pixel_examples)
  have r: "rint 510 = 510" "rint 255 = 255" "rint (- 255) = - 255" "rint 0 = 0"
    using rint_of_int [of 510] rint_of_int [of 255] rint_of_int [of "- 255"] rint_of_int [of 0]
    by simp_all
  show "to_uint8 d 2 = 254" by (simp add: to_uint8_eq a r)
  show "to_uint8 d 0 = 0" by (simp add: to_uint8_eq fl_def r)
  show "to_uint8 d 1 = 255" by (simp add: to_uint8_eq b r)
  show "to_uint8 d (- 1) = 1" by (simp add: to_uint8_eq c r)
qed

theorem to_uint8_wraps_witness:
  "(0::real) \<le> 1 \<and> (1::real) \<le> 1
   \<and> uint (to_uint8 Float32 1) = 255
   \<and> rint (fl Float32 (1 * 255)) = 255
   \<and> uint (to_uint8 Float32 2) = 254
   \<and> rint (fl Float32 (2 * 255)) mod 256 = 254"
  using to_uint8_wraps [of Float32 1] to_uint8_wraps [of Float32 2] to_uint8_examples [of Float32]
  by simp

text \<open>
  The claim as it was stated fails: the element 2 gives \<open>round(2 * 255) = 510\<close>, whose
  byte is 254 and not the clamped value 255.
\<close>

theorem numpy_to_pil_wraps_counterexample:
  "numpy_to_pil example_lib \<lparr>shape = [1, 1, 3], data = [2, 0, 1], dtype = Float32\<rparr>
     = Inr [\<lparr>im_width = 1, im_height = 1, im_bands = 3, im_pixels = [254, 0, 255]\<rparr>]
   \<and> rint (fl Float32 (2 * 255)) = 510
   \<and> max 0 (min 255 (rint (fl Float32 (2 * 255)))) = 255
   \<and> uint (to_uint8 Float32 2) \<noteq> max 0 (min 255 (rint (fl Float32 (2 * 255))))"
proof -
  have a: "fl Float32 510 = 510" by (rule fl_pixel_examples)
  have r: "rint 510 = 510" using rint_of_int [of 510] by simp
  have "numpy_to_pil example_lib \<lparr>shape = [1, 1, 3], data = [2, 0, 1], dtype = Float32\<rparr>
     = Inr [\<lparr>im_width = 1, im_height = 1, im_bands = 3, im_pixels = [254, 0, 255]\<rparr>]"
    by (simp add: numpy_to_pil_def ndim_def map_array_def to_uint8_examples items_def item_def
        numel_def example_lib_def Let_def)
  then show ?thesis by (simp add: a r to_uint8_examples)
qed
end
